theory Spec2Isabelle
  imports Main "HOL-Library.Sublist"
begin


section \<open>Python strings\<close>

text \<open>
  A Python \<open>str\<close> is a sequence of Unicode code points, so it is modelled as a list of
  naturals. ASCII literals of the source are written \<open>asc ''...''\<close>; literals in other
  scripts are written out as their code points.
\<close>

type_synonym str = "nat list"

definition asc :: "string \<Rightarrow> str" where
  "asc s = map of_char s"

text \<open>\<open>needle in haystack\<close> on strings: the needle occurs as a contiguous substring.\<close>

fun str_in :: "str \<Rightarrow> str \<Rightarrow> bool" where
  "str_in s [] = (s = [])"
| "str_in s (c # cs) = (prefix s (c # cs) \<or> str_in s cs)"

definition startswith :: "str \<Rightarrow> str \<Rightarrow> bool" where
  "startswith s p = prefix p s"

definition endswith :: "str \<Rightarrow> str \<Rightarrow> bool" where
  "endswith s p = prefix (rev p) (rev s)"

text \<open>
  \<open>str.lower\<close> is a built-in of the Python runtime, driven by the Unicode character
  database. The functions below take it as the parameter \<open>lower\<close>; \<open>ascii_lower\<close> is
  what it computes on ASCII text and serves as the instance for concrete runs.
\<close>

definition ascii_lower :: "str \<Rightarrow> str" where
  "ascii_lower s = map (\<lambda>c. if 65 \<le> c \<and> c \<le> 90 then c + 32 else c) s"

text \<open>\<open>s.rstrip('/')\<close>, \<open>s.split('/')\<close> and \<open>sep.join(parts)\<close>; code point 47 is the slash.\<close>

definition rstrip_slash :: "str \<Rightarrow> str" where
  "rstrip_slash s = rev (dropWhile (\<lambda>c. c = 47) (rev s))"

fun split_slash :: "str \<Rightarrow> str list" where
  "split_slash [] = [[]]"
| "split_slash (c # cs) =
     (if c = 47 then [] # split_slash cs
      else (case split_slash cs of
              p # ps \<Rightarrow> (c # p) # ps
            | [] \<Rightarrow> [[c]]))"

fun join :: "str \<Rightarrow> str list \<Rightarrow> str" where
  "join sep [] = []"
| "join sep [p] = p"
| "join sep (p # ps) = p @ sep @ join sep ps"

section \<open>Exceptions\<close>

text \<open>
  The exceptions that the calls of the source can raise. Only the last handler of
  \<open>clone_gitlab_repo\<close> and the handlers around file reads tell them apart:
  \<open>TimeoutExpired\<close>, \<open>FileNotFoundError\<close> and \<open>OSError\<close> are the ones the handler around
  \<open>subprocess.run\<close> names.
\<close>

datatype exn =
  TimeoutExpired | FileNotFoundError | OSError | UnicodeDecodeError | ValueError | RequestException

section \<open>Repository snapshot\<close>

text \<open>
  The directory that is analysed, as a tree. A file is \<open>Unreadable\<close> when opening or
  reading it raises an \<open>OSError\<close>; \<open>Text s\<close> when its bytes are valid UTF-8 for \<open>s\<close>;
  \<open>Garbled s\<close> when they are not, and \<open>s\<close> is what decoding with \<open>errors='ignore'\<close> keeps.
  \<open>read_ignore\<close> is \<open>open(p, 'r', encoding='utf-8', errors='ignore').read()\<close> and
  \<open>read_strict\<close> is \<open>open(p, 'r', encoding='utf-8').read()\<close>.
\<close>

datatype fdata = Unreadable | Text str | Garbled str

datatype node = File str fdata | Dir str "node list"

fun read_ignore :: "fdata \<Rightarrow> exn + str" where
  "read_ignore Unreadable = Inl OSError"
| "read_ignore (Text s) = Inr s"
| "read_ignore (Garbled s) = Inr s"

fun read_strict :: "fdata \<Rightarrow> exn + str" where
  "read_strict Unreadable = Inl OSError"
| "read_strict (Text s) = Inr s"
| "read_strict (Garbled s) = Inl UnicodeDecodeError"

text \<open>
  \<open>os.walk\<close>, top-down: the files of a directory first, then its subdirectories in
  order, each walked only if the caller's pruning (\<open>dirs[:] = ...\<close>) keeps its name.
  A walked file carries the directory it was found in (relative to the directory
  analysed), its name and what reading it gives: the snapshot does not change while it
  is analysed.
\<close>

type_synonym path = "str list"

record walked =
  root :: path
  fname :: str
  data :: fdata

fun files_here :: "path \<Rightarrow> node list \<Rightarrow> walked list" where
  "files_here r [] = []"
| "files_here r (File f d # es) = \<lparr>root = r, fname = f, data = d\<rparr> # files_here r es"
| "files_here r (Dir _ _ # es) = files_here r es"

fun walk_subdirs :: "(str \<Rightarrow> bool) \<Rightarrow> path \<Rightarrow> node list \<Rightarrow> walked list" where
  "walk_subdirs keep r [] = []"
| "walk_subdirs keep r (File _ _ # es) = walk_subdirs keep r es"
| "walk_subdirs keep r (Dir d cs # es) =
     (if keep d then files_here (r @ [d]) cs @ walk_subdirs keep (r @ [d]) cs else [])
     @ walk_subdirs keep r es"

definition os_walk :: "(str \<Rightarrow> bool) \<Rightarrow> node list \<Rightarrow> walked list" where
  "os_walk keep directory = files_here [] directory @ walk_subdirs keep [] directory"

definition file_path :: "walked \<Rightarrow> path" where
  "file_path w = root w @ [fname w]"

text \<open>\<open>str(file_path.relative_to(directory))\<close>.\<close>

definition relative_str :: "path \<Rightarrow> str" where
  "relative_str p = join (asc ''/'') p"

section \<open>RepositoryFetcher: \<open>clone_gitlab_repo\<close>\<close>

text \<open>
  The outside world of the fetcher: \<open>subprocess_run w git_url\<close> is what
  \<open>subprocess.run(['git', 'clone', git_url, temp_dir], ...)\<close> does, an exception or the
  return code; \<open>requests_get w zip_url\<close> is what \<open>requests.get(zip_url, timeout=30)\<close>
  does, an exception or a response. \<open>unpacks\<close> of a response tells whether saving its
  payload, extracting it and moving the extracted content completes without an exception.
  The function returns the calls it made, in order, with its result; \<open>StError\<close> is the call
  of \<open>st.error\<close> in the last handler.
\<close>

record response =
  status_code :: int
  unpacks :: bool

record world =
  subprocess_run :: "str \<Rightarrow> exn + int"
  requests_get :: "str \<Rightarrow> exn + response"

datatype event = GitClone str | HttpGet str | StError

definition git_url_of :: "str \<Rightarrow> str" where
  "git_url_of repo_url =
     (if \<not> endswith repo_url (asc ''.git'') then repo_url @ asc ''.git'' else repo_url)"

definition possible_urls :: "str \<Rightarrow> str list" where
  "possible_urls repo_url =
     (let parts = split_slash (rstrip_slash repo_url);
          protocol_and_domain = join (asc ''/'') (take (length parts - 2) parts);
          owner = parts ! (length parts - 2);
          repo0 = last parts;
          repo = (if endswith repo0 (asc ''.git'') then take (length repo0 - 4) repo0 else repo0);
          base = protocol_and_domain @ asc ''/'' @ owner @ asc ''/'' @ repo
      in [base @ asc ''/-/archive/main/'' @ repo @ asc ''-main.zip'',
          base @ asc ''/-/archive/master/'' @ repo @ asc ''-master.zip'',
          base @ asc ''/repository/archive.zip?ref=main'',
          base @ asc ''/repository/archive.zip?ref=master''])"

definition archive_candidates :: "(str \<Rightarrow> str) \<Rightarrow> str \<Rightarrow> str list" where
  "archive_candidates lower repo_url =
     (if str_in (asc ''//'') repo_url \<and>
         (str_in (asc ''gitlab'') (lower repo_url) \<or> str_in (asc ''git'') (lower repo_url))
      then (if 2 \<le> length (split_slash (rstrip_slash repo_url)) then possible_urls repo_url else [])
      else [])"

fun try_archives :: "world \<Rightarrow> str list \<Rightarrow> event list \<times> bool" where
  "try_archives w [] = ([], False)"
| "try_archives w (zip_url # rest) =
     (case requests_get w zip_url of
        Inl _ \<Rightarrow> (case try_archives w rest of (evs, ok) \<Rightarrow> (HttpGet zip_url # evs, ok))
      | Inr response \<Rightarrow>
          if status_code response = 200 \<and> unpacks response then ([HttpGet zip_url], True)
          else (case try_archives w rest of (evs, ok) \<Rightarrow> (HttpGet zip_url # evs, ok)))"

definition clone_body :: "(str \<Rightarrow> str) \<Rightarrow> world \<Rightarrow> str \<Rightarrow> event list \<times> (exn + bool)" where
  "clone_body lower w repo_url =
     (let git_url = git_url_of repo_url;
          method2 = (let (evs, ok) = try_archives w (archive_candidates lower repo_url)
                     in (GitClone git_url # evs, Inr ok))
      in case subprocess_run w git_url of
           Inr returncode \<Rightarrow> if returncode = 0 then ([GitClone git_url], Inr True) else method2
         | Inl e \<Rightarrow>
             if e \<in> set [TimeoutExpired, FileNotFoundError, OSError] then method2
             else ([GitClone git_url], Inl e))"

definition clone_gitlab_repo :: "(str \<Rightarrow> str) \<Rightarrow> world \<Rightarrow> str \<Rightarrow> event list \<times> (exn + bool)" where
  "clone_gitlab_repo lower w repo_url =
     (case clone_body lower w repo_url of
        (evs, Inl e) \<Rightarrow> (evs @ [StError], Inr False)
      | (evs, Inr ok) \<Rightarrow> (evs, Inr ok))"

section \<open>FileDiscovery: \<open>find_streamlit_files\<close>\<close>

definition keep_source_dir :: "str \<Rightarrow> bool" where
  "keep_source_dir d =
     (\<not> startswith d (asc ''.'') \<and> d \<notin> set [asc ''_pycache_'', asc ''node_modules''])"

definition is_streamlit_file :: "(str \<Rightarrow> str) \<Rightarrow> walked \<Rightarrow> bool" where
  "is_streamlit_file lower w =
     (endswith (fname w) (asc ''.py'') \<and>
      (case read_ignore (data w) of
         Inr content \<Rightarrow> str_in (asc ''streamlit'') (lower content) \<or> str_in (asc ''st.'') content
       | Inl _ \<Rightarrow> False))"

definition find_streamlit_files :: "(str \<Rightarrow> str) \<Rightarrow> node list \<Rightarrow> walked list" where
  "find_streamlit_files lower directory =
     filter (is_streamlit_file lower) (os_walk keep_source_dir directory)"

section \<open>PatternDetector: \<open>analyze_i18n_patterns\<close>\<close>

text \<open>
  The regular expressions of the source use literal characters, \<open>.\<close>, \<open>\s\<close> and the
  postfix operators \<open>*\<close> and \<open>+\<close> on a single character; they are written as lists of
  pieces. \<open>re.findall(pattern, content, re.IGNORECASE | re.MULTILINE)\<close> belongs to the
  Python runtime and is the parameter \<open>re_findall\<close>.
\<close>

datatype atom = Chr nat | Dot | Space

datatype piece = One atom | Star atom | Plus atom

type_synonym regex = "piece list"

definition lit :: "string \<Rightarrow> regex" where
  "lit s = map (\<lambda>c. One (Chr (of_char c))) s"

definition patterns :: "(str \<times> (str \<times> regex list) list) list" where
  "patterns = [
    (asc ''gettext'', [
      (asc ''imports'', [lit ''import'' @ [Plus Space] @ lit ''gettext'',
                         lit ''from'' @ [Plus Space] @ lit ''gettext'' @ [Plus Space] @ lit ''import'']),
      (asc ''functions'', [lit ''_('', lit ''gettext('', lit ''ngettext('']),
      (asc ''setup'', [lit ''gettext.'' @ [One Dot] @ lit ''('' @ [One Dot] @ lit '')'',
                       lit ''.bindtextdomain('', lit ''.textdomain(''])]),
    (asc ''streamlit_i18n'', [
      (asc ''imports'', [lit ''import'' @ [Plus Space] @ lit ''streamlit_i18n'',
                         lit ''from'' @ [Plus Space] @ lit ''streamlit_i18n'']),
      (asc ''functions'', [lit ''i18n('', lit ''.translate('', lit ''.t(''])]),
    (asc ''babel'', [
      (asc ''imports'', [lit ''import'' @ [Plus Space] @ lit ''babel'',
                         lit ''from'' @ [Plus Space] @ lit ''babel'']),
      (asc ''functions'', [lit ''Locale('', lit ''format_currency('', lit ''format_date(''])]),
    (asc ''custom_translation'', [
      (asc ''dictionaries'', [lit ''translations'' @ [Star Space] @ lit ''='' @ [Star Space] @ lit ''{'',
                              lit ''languages'' @ [Star Space] @ lit ''='' @ [Star Space] @ lit ''{'',
                              lit ''TRANSLATIONS'' @ [Star Space] @ lit ''='']),
      (asc ''functions'', [lit ''translate('', lit ''get_text('', lit ''tr(''])]),
    (asc ''language_detection'', [
      (asc ''patterns'', [lit ''st.selectbox'' @ [Star Dot] @ lit ''lang'',
                          lit ''language'' @ [Star Dot] @ lit ''select'',
                          lit ''locale'', lit ''LANG''])])]"

type_synonym findall = "regex \<Rightarrow> str \<Rightarrow> str list"

type_synonym category_results = "(str \<times> str list) list"

definition category_matches :: "findall \<Rightarrow> str \<Rightarrow> (str \<times> regex list) list \<Rightarrow> category_results" where
  "category_matches re_findall content pattern_dict =
     filter (\<lambda>(pattern_type, matches). matches \<noteq> [])
       (map (\<lambda>(pattern_type, pattern_list).
               (pattern_type, concat (map (\<lambda>pattern. re_findall pattern content) pattern_list)))
            pattern_dict)"

definition analyze_i18n_patterns :: "findall \<Rightarrow> fdata \<Rightarrow> (str \<times> category_results) list" where
  "analyze_i18n_patterns re_findall d =
     (case read_ignore d of
        Inl _ \<Rightarrow> []
      | Inr content \<Rightarrow>
          filter (\<lambda>(category, category_results). category_results \<noteq> [])
            (map (\<lambda>(category, pattern_dict).
                    (category, category_matches re_findall content pattern_dict))
                 patterns))"

subsection \<open>A reference instance of \<open>re.findall\<close> on ASCII text\<close>

text \<open>
  A backtracking matcher with greedy repetition, case-insensitive on ASCII letters;
  \<open>scan\<close> collects the leftmost non-overlapping matches. It is used for concrete runs only.
\<close>

fun atom_ok :: "atom \<Rightarrow> nat \<Rightarrow> bool" where
  "atom_ok (Chr c) x = (ascii_lower [x] = ascii_lower [c])"
| "atom_ok Dot x = (x \<noteq> 10)"
| "atom_ok Space x = (x \<in> set [9, 10, 11, 12, 13, 28, 29, 30, 31, 32])"

fun first_some :: "'a option list \<Rightarrow> 'a option" where
  "first_some [] = None"
| "first_some (None # xs) = first_some xs"
| "first_some (Some x # xs) = Some x"

fun match_len :: "regex \<Rightarrow> str \<Rightarrow> nat option" where
  "match_len [] s = Some 0"
| "match_len (One a # r) s =
     (case s of
        [] \<Rightarrow> None
      | x # xs \<Rightarrow> if atom_ok a x then map_option Suc (match_len r xs) else None)"
| "match_len (Star a # r) s =
     first_some (map (\<lambda>k. map_option ((+) k) (match_len r (drop k s)))
                     (rev [0..<Suc (length (takeWhile (atom_ok a) s))]))"
| "match_len (Plus a # r) s =
     first_some (map (\<lambda>k. map_option ((+) k) (match_len r (drop k s)))
                     (rev [1..<Suc (length (takeWhile (atom_ok a) s))]))"

fun scan :: "regex \<Rightarrow> nat \<Rightarrow> str \<Rightarrow> str list" where
  "scan r k [] = (if k = 0 \<and> match_len r [] \<noteq> None then [[]] else [])"
| "scan r (Suc k) (x # xs) = scan r k xs"
| "scan r 0 (x # xs) =
     (case match_len r (x # xs) of
        None \<Rightarrow> scan r 0 xs
      | Some n \<Rightarrow> take n (x # xs) # scan r (n - 1) xs)"

definition ascii_findall :: findall where
  "ascii_findall r s = scan r 0 s"

section \<open>LanguageContentDetector: \<open>detect_languages_in_content\<close>\<close>

definition language_indicators :: "(str \<times> str list) list" where
  "language_indicators = [
    (asc ''english'',
      [asc ''en'',
       asc ''english'',
       asc ''hello'',
       asc ''thank you'',
       asc ''please'',
       asc ''welcome'',
       asc ''goodbye'']),
    (asc ''hindi'',
      [asc ''hi'',
       [0x939, 0x93f, 0x902, 0x926, 0x940],
       [0x928, 0x92e, 0x938, 0x94d, 0x924, 0x947],
       [0x927, 0x928, 0x94d, 0x92f, 0x935, 0x93e, 0x926],
       [0x915, 0x943, 0x92a, 0x92f, 0x93e],
       [0x938, 0x94d, 0x935, 0x93e, 0x917, 0x924],
       [0x905, 0x932, 0x935, 0x93f, 0x926, 0x93e]]),
    (asc ''bengali'',
      [asc ''bn'',
       [0x9ac, 0x9be, 0x982, 0x9b2, 0x9be],
       [0x9a8, 0x9ae, 0x9b8, 0x9cd, 0x995, 0x9be, 0x9b0],
       [0x9a7, 0x9a8, 0x9cd, 0x9af, 0x9ac, 0x9be, 0x9a6],
       [0x9a6, 0x9af, 0x9bc, 0x9be, 0x20, 0x995, 0x9b0, 0x9c7],
       [0x9b8, 0x9cd, 0x9ac, 0x9be, 0x997, 0x9a4, 0x9ae]]),
    (asc ''tamil'',
      [asc ''ta'',
       [0xba4, 0xbae, 0xbbf, 0xbb4, 0xbcd],
       [0xbb5, 0xba3, 0xb95, 0xbcd, 0xb95, 0xbae, 0xbcd],
       [0xba8, 0xba9, 0xbcd, 0xbb1, 0xbbf],
       [0xba4, 0xbaf, 0xbb5, 0xbc1, 0xb9a, 0xbc6, 0xbaf, 0xbcd, 0xba4, 0xbc1],
       [0xbb5, 0xbb0, 0xbb5, 0xbc7, 0xbb1, 0xbcd, 0xb95, 0xbbf, 0xbb1, 0xbcb, 0xbae, 0xbcd]]),
    (asc ''telugu'',
      [asc ''te'',
       [0xc24, 0xc46, 0xc32, 0xc41, 0xc17, 0xc41],
       [0xc28, 0xc2e, 0xc38, 0xc4d, 0xc15, 0xc3e, 0xc30, 0xc02],
       [0xc27, 0xc28, 0xc4d, 0xc2f, 0xc35, 0xc3e, 0xc26, 0xc3e, 0xc32, 0xc41],
       [0xc26, 0xc2f, 0xc1a, 0xc47, 0xc38, 0xc3f],
       [0xc38, 0xc4d, 0xc35, 0xc3e, 0xc17, 0xc24, 0xc02]]),
    (asc ''marathi'',
      [asc ''mr'',
       [0x92e, 0x930, 0x93e, 0x920, 0x940],
       [0x928, 0x92e, 0x938, 0x94d, 0x915, 0x93e, 0x930],
       [0x927, 0x928, 0x94d, 0x92f, 0x935, 0x93e, 0x926],
       [0x915, 0x943, 0x92a, 0x92f, 0x93e],
       [0x938, 0x94d, 0x935, 0x93e, 0x917, 0x924]]),
    (asc ''gujarati'',
      [asc ''gu'',
       [0xa97, 0xac1, 0xa9c, 0xab0, 0xabe, 0xaa4, 0xac0],
       [0xaa8, 0xaae, 0xab8, 0xacd, 0xaa4, 0xac7],
       [0xa86, 0xaad, 0xabe, 0xab0],
       [0xa95, 0xac3, 0xaaa, 0xabe, 0x20, 0xa95, 0xab0, 0xac0, 0xaa8, 0xac7],
       [0xab8, 0xacd, 0xab5, 0xabe, 0xa97, 0xaa4]]),
    (asc ''kannada'',
      [asc ''kn'',
       [0xc95, 0xca8, 0xccd, 0xca8, 0xca1],
       [0xca8, 0xcae, 0xcb8, 0xccd, 0xca4, 0xcc6],
       [0xca7, 0xca8, 0xccd, 0xcaf, 0xcb5, 0xcbe, 0xca6, 0xc97, 0xcb3, 0xcc1],
       [0xca6, 0xcaf, 0xcb5, 0xcbf, 0xc9f, 0xccd, 0xc9f, 0xcc1],
       [0xcb8, 0xccd, 0xcb5, 0xcbe, 0xc97, 0xca4]]),
    (asc ''malayalam'',
      [asc ''ml'',
       [0xd2e, 0xd32, 0xd2f, 0xd3e, 0xd33, 0xd02],
       [0xd28, 0xd2e, 0xd38, 0xd4d, 0xd24, 0xd47],
       [0xd28, 0xd28, 0xd4d, 0xd26, 0xd3f],
       [0xd26, 0xd2f, 0xd35, 0xd3e, 0xd2f, 0xd3f],
       [0xd38, 0xd4d, 0xd35, 0xd3e, 0xd17, 0xd24, 0xd02]]),
    (asc ''punjabi'',
      [asc ''pa'',
       [0xa2a, 0xa70, 0xa1c, 0xa3e, 0xa2c, 0xa40],
       [0xa38, 0xa24, 0x20, 0xa38, 0xa4d, 0xa30, 0xa40, 0x20, 0xa05, 0xa15, 0xa3e, 0xa32],
       [0xa27, 0xa70, 0xa28, 0xa35, 0xa3e, 0xa26],
       [0xa15, 0xa3f, 0xa30, 0xa2a, 0xa3e, 0x20, 0xa15, 0xa30, 0xa15, 0xa47]]),
    (asc ''oriya'',
      [asc ''or'',
       [0xb13, 0xb21, 0xb3c, 0xb3f, 0xb06],
       [0xb28, 0xb2e, 0xb38, 0xb4d, 0xb15, 0xb3e, 0xb30],
       [0xb27, 0xb28, 0xb4d, 0xb5f, 0xb2c, 0xb3e, 0xb26],
       [0xb26, 0xb5f, 0xb3e, 0xb15, 0xb30, 0xb3f],
       [0xb38, 0xb4d, 0xb71, 0xb3e, 0xb17, 0xb24]]),
    (asc ''assamese'',
      [asc ''as'',
       [0x985, 0x9b8, 0x9ae, 0x9c0, 0x9af, 0x9bc, 0x9be],
       [0x9a8, 0x9ae, 0x9b8, 0x9cd, 0x995, 0x9be, 0x9f0],
       [0x9a7, 0x9a8, 0x9cd, 0x9af, 0x9ac, 0x9be, 0x9a6],
       [0x985, 0x9a8, 0x9c1, 0x997, 0x9cd, 0x9f0, 0x9b9, 0x20, 0x995, 0x9f0, 0x9bf]]),
    (asc ''urdu'',
      [asc ''ur'',
       [0x627, 0x631, 0x62f, 0x648],
       [0x622, 0x62f, 0x627, 0x628],
       [0x634, 0x6a9, 0x631, 0x6cc, 0x6c1],
       [0x628, 0x631, 0x627, 0x6c1, 0x20, 0x6a9, 0x631, 0x645],
       [0x62e, 0x648, 0x634, 0x20, 0x622, 0x645, 0x62f, 0x6cc, 0x62f]]),
    (asc ''sanskrit'',
      [asc ''sa'',
       [0x938, 0x902, 0x938, 0x94d, 0x915, 0x943, 0x924],
       [0x928, 0x92e, 0x938, 0x94d, 0x924, 0x947],
       [0x927, 0x928, 0x94d, 0x92f, 0x935, 0x93e, 0x926],
       [0x915, 0x943, 0x92a, 0x92f, 0x93e]]),
    (asc ''kashmiri'',
      [asc ''ks'',
       [0x915, 0x949, 0x936, 0x941, 0x930],
       [0x928, 0x92e, 0x938, 0x94d, 0x915, 0x93e, 0x930],
       [0x936, 0x941, 0x915, 0x94d, 0x930, 0x93f, 0x92f, 0x93e],
       [0x92e, 0x947, 0x939, 0x930, 0x92c, 0x93e, 0x928, 0x940]]),
    (asc ''nepali'',
      [asc ''ne'',
       [0x928, 0x947, 0x92a, 0x93e, 0x932, 0x940],
       [0x928, 0x92e, 0x938, 0x94d, 0x924, 0x947],
       [0x927, 0x928, 0x94d, 0x92f, 0x935, 0x93e, 0x926],
       [0x915, 0x943, 0x92a, 0x92f, 0x93e],
       [0x938, 0x94d, 0x935, 0x93e, 0x917, 0x924]]),
    (asc ''sinhala'',
      [asc ''si'',
       [0xdc3, 0xdd2, 0xd82, 0xdc4, 0xdbd],
       [0xd86, 0xdba, 0xdd4, 0xdb6, 0xddd, 0xdc0, 0xdb1, 0xdca],
       [0xdc3, 0xdca, 0xdad, 0xdd6, 0xdad, 0xdd2, 0xdba, 0xdd2],
       [0xd9a, 0xdbb, 0xdd4, 0xdab, 0xdcf, 0xd9a, 0xdbb]])]"

definition detect_languages_in_content :: "(str \<Rightarrow> str) \<Rightarrow> str \<Rightarrow> str set" where
  "detect_languages_in_content lower content =
     (let content_lower = lower content
      in set (map fst (filter (\<lambda>(lang, indicators).
                list_ex (\<lambda>indicator. str_in indicator content_lower) indicators)
              language_indicators)))"

text \<open>The keys of the indicator table: the languages the detector can report.\<close>

definition language_catalog :: "str set" where
  "language_catalog = set (map fst language_indicators)"

section \<open>TranslationFileIndex: \<open>find_translation_files\<close>\<close>

datatype bucket = po_files | mo_files | json_translations | yaml_translations | properties_files

definition name_keywords :: "str list" where
  "name_keywords = [asc ''lang'', asc ''translation'', asc ''locale'', asc ''i18n'']"

definition has_keyword :: "(str \<Rightarrow> str) \<Rightarrow> str \<Rightarrow> bool" where
  "has_keyword lower f = list_ex (\<lambda>keyword. str_in keyword (lower f)) name_keywords"

definition classify :: "(str \<Rightarrow> str) \<Rightarrow> str \<Rightarrow> bucket option" where
  "classify lower f =
     (if endswith f (asc ''.po'') then Some po_files
      else if endswith f (asc ''.mo'') then Some mo_files
      else if endswith f (asc ''.json'') \<and> has_keyword lower f then Some json_translations
      else if (endswith f (asc ''.yml'') \<or> endswith f (asc ''.yaml'')) \<and> has_keyword lower f
        then Some yaml_translations
      else if endswith f (asc ''.properties'') then Some properties_files
      else None)"

definition keep_visible_dir :: "str \<Rightarrow> bool" where
  "keep_visible_dir d = (\<not> startswith d (asc ''.''))"

definition buckets :: "bucket list" where
  "buckets = [po_files, mo_files, json_translations, yaml_translations, properties_files]"

definition find_translation_files :: "(str \<Rightarrow> str) \<Rightarrow> node list \<Rightarrow> (bucket \<times> path list) list" where
  "find_translation_files lower directory =
     map (\<lambda>b. (b, map file_path
                    (filter (\<lambda>w. classify lower (fname w) = Some b)
                       (os_walk keep_visible_dir directory))))
         buckets"

text \<open>
  The order of the specification's words, for comparison: the extension-only formats
  first, then the keyword-qualified ones.
\<close>

definition classify_extension_first :: "(str \<Rightarrow> str) \<Rightarrow> str \<Rightarrow> bucket option" where
  "classify_extension_first lower f =
     (if endswith f (asc ''.po'') then Some po_files
      else if endswith f (asc ''.mo'') then Some mo_files
      else if endswith f (asc ''.properties'') then Some properties_files
      else if endswith f (asc ''.json'') \<and> has_keyword lower f then Some json_translations
      else if (endswith f (asc ''.yml'') \<or> endswith f (asc ''.yaml'')) \<and> has_keyword lower f
        then Some yaml_translations
      else None)"

section \<open>DependencyInspector: \<open>analyze_requirements_file\<close>\<close>

definition i18n_packages_catalog :: "str list" where
  "i18n_packages_catalog =
     [asc ''streamlit-i18n'', asc ''babel'', asc ''gettext'', asc ''python-gettext'',
      asc ''flask-babel'', asc ''django-rosetta'', asc ''polib'', asc ''translate'']"

definition manifest_names :: "str list" where
  "manifest_names =
     [asc ''requirements.txt'', asc ''requirements.in'', asc ''pyproject.toml'',
      asc ''setup.py'', asc ''Pipfile'']"

fun node_name :: "node \<Rightarrow> str" where
  "node_name (File f _) = f"
| "node_name (Dir d _) = d"

definition lookup_entry :: "node list \<Rightarrow> str \<Rightarrow> node option" where
  "lookup_entry directory name = find (\<lambda>n. node_name n = name) directory"

fun open_strict :: "node \<Rightarrow> exn + str" where
  "open_strict (File _ d) = read_strict d"
| "open_strict (Dir _ _) = Inl OSError"

record dependency_report =
  requirements_files :: "str list"
  i18n_packages :: "str list"

definition found_in :: "(str \<Rightarrow> str) \<Rightarrow> str \<Rightarrow> str list" where
  "found_in lower content =
     filter (\<lambda>package. str_in (lower package) (lower content)) i18n_packages_catalog"

fun scan_manifests :: "(str \<Rightarrow> str) \<Rightarrow> node list \<Rightarrow> str list \<Rightarrow> dependency_report \<Rightarrow> dependency_report" where
  "scan_manifests lower directory [] acc = acc"
| "scan_manifests lower directory (req_file # rest) acc =
     (case lookup_entry directory req_file of
        None \<Rightarrow> scan_manifests lower directory rest acc
      | Some req_path \<Rightarrow>
          (let acc1 = acc\<lparr>requirements_files := requirements_files acc @ [req_file]\<rparr>
           in case open_strict req_path of
                Inl _ \<Rightarrow> scan_manifests lower directory rest acc1
              | Inr content \<Rightarrow>
                  scan_manifests lower directory rest
                    (acc1\<lparr>i18n_packages := i18n_packages acc1 @ found_in lower content\<rparr>)))"

definition analyze_requirements_file :: "(str \<Rightarrow> str) \<Rightarrow> node list \<Rightarrow> dependency_report" where
  "analyze_requirements_file lower directory =
     scan_manifests lower directory manifest_names \<lparr>requirements_files = [], i18n_packages = []\<rparr>"

section \<open>ScoringEngine and ReportAssembler: \<open>generate_multilingual_report\<close>\<close>

record report =
  is_multilingual :: bool
  confidence_score :: int
  streamlit_files :: "str list"
  i18n_patterns :: "(str \<times> (str \<times> category_results) list) list"
  translation_files :: "(bucket \<times> str list) list"
  detected_languages :: "str set"
  requirements_analysis :: dependency_report
  recommendations :: "str list"

text \<open>Assignment \<open>d[k] = v\<close> on a dictionary kept in insertion order.\<close>

fun dict_set :: "'k \<Rightarrow> 'v \<Rightarrow> ('k \<times> 'v) list \<Rightarrow> ('k \<times> 'v) list" where
  "dict_set k v [] = [(k, v)]"
| "dict_set k v ((k', v') # kvs) =
     (if k' = k then (k, v) # kvs else (k', v') # dict_set k v kvs)"

fun analyze_files ::
  "(str \<Rightarrow> str) \<Rightarrow> findall \<Rightarrow> walked list \<Rightarrow>
   (str \<times> (str \<times> category_results) list) list \<times> str set \<Rightarrow>
   (str \<times> (str \<times> category_results) list) list \<times> str set" where
  "analyze_files lower re_findall [] acc = acc"
| "analyze_files lower re_findall (w # ws) (all_patterns, all_languages) =
     (let file_patterns = analyze_i18n_patterns re_findall (data w);
          all_patterns1 =
            (if file_patterns \<noteq> []
             then dict_set (relative_str (file_path w)) file_patterns all_patterns
             else all_patterns)
      in case read_ignore (data w) of
           Inl _ \<Rightarrow> analyze_files lower re_findall ws (all_patterns1, all_languages)
         | Inr content \<Rightarrow>
             analyze_files lower re_findall ws
               (all_patterns1, all_languages \<union> detect_languages_in_content lower content))"

definition any_values :: "('k \<times> 'v list) list \<Rightarrow> bool" where
  "any_values d = list_ex (\<lambda>(k, v). v \<noteq> []) d"

definition rec_adopt_library :: str where
  "rec_adopt_library = asc ''Consider implementing internationalization for English and Indic languages using libraries like streamlit-i18n or gettext''"

definition rec_language_widget :: str where
  "rec_language_widget = asc ''Add language selection widget with English and Indic language options''"

definition rec_create_translations :: str where
  "rec_create_translations = asc ''Create translation files for target Indic languages (Hindi, Bengali, Tamil, etc.)''"

definition rec_unicode_fonts :: str where
  "rec_unicode_fonts = asc ''Consider using Unicode fonts that support Indic scripts''"

definition rec_document_dependencies :: str where
  "rec_document_dependencies = asc ''Document your i18n dependencies in requirements.txt''"

definition rec_standard_formats :: str where
  "rec_standard_formats = asc ''Consider using standard translation file formats (.po, .json) for Indic languages''"

definition rec_unicode_support :: str where
  "rec_unicode_support = asc ''Ensure proper Unicode support for Indic scripts in your application''"

definition rec_test_inputs :: str where
  "rec_test_inputs = asc ''Test your application with different Indic language inputs''"

definition generate_multilingual_report :: "(str \<Rightarrow> str) \<Rightarrow> findall \<Rightarrow> node list \<Rightarrow> report" where
  "generate_multilingual_report lower re_findall directory =
     (let found_files = find_streamlit_files lower directory;
          (all_patterns, all_languages) = analyze_files lower re_findall found_files ([], {});
          found_translations = find_translation_files lower directory;
          analysis = analyze_requirements_file lower directory;
          score = (if all_patterns \<noteq> [] then 40 else 0)
                + (if any_values found_translations then 30 else 0)
                + (if i18n_packages analysis \<noteq> [] then 20 else 0)
                + (if 1 < card all_languages then 10 else 0);
          multilingual = (30 \<le> score);
          recs =
            (if \<not> multilingual
             then [rec_adopt_library, rec_language_widget, rec_create_translations, rec_unicode_fonts]
             else (if i18n_packages analysis = [] then [rec_document_dependencies] else [])
                @ (if \<not> any_values found_translations then [rec_standard_formats] else [])
                @ [rec_unicode_support, rec_test_inputs])
      in \<lparr>is_multilingual = multilingual,
          confidence_score = min score 100,
          streamlit_files = map (\<lambda>w. relative_str (file_path w)) found_files,
          i18n_patterns = all_patterns,
          translation_files = map (\<lambda>(k, v). (k, map relative_str v)) found_translations,
          detected_languages = all_languages,
          requirements_analysis = analysis,
          recommendations = recs\<rparr>)"

section \<open>Auxiliary definitions and example inputs\<close>

text \<open>The languages one candidate file contributes: none when it cannot be read.\<close>

definition languages_in :: "(str \<Rightarrow> str) \<Rightarrow> walked \<Rightarrow> str set" where
  "languages_in lower w =
     (case read_ignore (data w) of
        Inr content \<Rightarrow> detect_languages_in_content lower content
      | Inl _ \<Rightarrow> {})"

text \<open>The score before the clamp, as \<open>generate_multilingual_report\<close> sums it.\<close>

definition raw_score :: "(str \<Rightarrow> str) \<Rightarrow> findall \<Rightarrow> node list \<Rightarrow> int" where
  "raw_score lower re directory =
     (if fst (analyze_files lower re (find_streamlit_files lower directory) ([], {})) \<noteq> [] then 40 else 0)
   + (if any_values (find_translation_files lower directory) then 30 else 0)
   + (if i18n_packages (analyze_requirements_file lower directory) \<noteq> [] then 20 else 0)
   + (if 1 < card (snd (analyze_files lower re (find_streamlit_files lower directory) ([], {}))) then 10 else 0)"

text \<open>Example snapshots for concrete runs.\<close>

definition app_with_po :: "node list" where
  "app_with_po = [File (asc ''app.py'') (Text (asc ''st.hi en'')), File (asc ''a.po'') (Text [])]"

definition only_po :: "node list" where
  "only_po = [File (asc ''messages.po'') (Text [])]"

definition only_readme :: "node list" where
  "only_readme = [File (asc ''README.md'') (Text (asc ''hello''))]"

definition gettext_outside_streamlit :: "node list" where
  "gettext_outside_streamlit =
     [File (asc ''i18n.py'') (Text (asc ''import gettext'')), File (asc ''messages.po'') (Text [])]"

definition gettext_in_streamlit :: "node list" where
  "gettext_in_streamlit =
     [File (asc ''app.py'') (Text (asc ''import gettext, streamlit'')),
      Dir (asc ''locale'') [File (asc ''hi.po'') (Text [])]]"

text \<open>A \<open>.po\<close> file at the root, one below a hidden directory, two JSON files.\<close>

definition tree_with_hidden :: "node list" where
  "tree_with_hidden =
     [File (asc ''a.po'') (Text []),
      Dir (asc ''.git'') [File (asc ''b.po'') (Text [])],
      Dir (asc ''i18n'') [File (asc ''LANG_hi.json'') (Text []), File (asc ''data.json'') (Text [])]]"

text \<open>What one manifest name adds to the package list.\<close>

definition manifest_packages :: "(str \<Rightarrow> str) \<Rightarrow> node list \<Rightarrow> str \<Rightarrow> str list" where
  "manifest_packages lower directory req_file =
     (case lookup_entry directory req_file of
        None \<Rightarrow> []
      | Some req_path \<Rightarrow>
          (case open_strict req_path of
             Inl _ \<Rightarrow> []
           | Inr content \<Rightarrow> found_in lower content))"

text \<open>A root entry without what lies below it.\<close>

fun shallow :: "node \<Rightarrow> node" where
  "shallow (File f d) = File f d"
| "shallow (Dir d cs) = Dir d []"

text \<open>Two root manifests naming the package, and a manifest below the root.\<close>

definition two_manifests :: "node list" where
  "two_manifests =
     [File (asc ''requirements.txt'') (Text (asc ''Streamlit-I18N==0.1'')),
      File (asc ''Pipfile'') (Text (asc ''streamlit-i18n streamlit-i18n'')),
      Dir (asc ''sub'') [File (asc ''setup.py'') (Text (asc ''babel''))]]"

text \<open>
  A candidate wins when the request returns, its status is 200 and its payload unpacks;
  \<open>attempted\<close> are the candidates up to and including the first that wins.
\<close>

definition wins :: "world \<Rightarrow> str \<Rightarrow> bool" where
  "wins w zip_url =
     (case requests_get w zip_url of
        Inl _ \<Rightarrow> False
      | Inr response \<Rightarrow> status_code response = 200 \<and> unpacks response)"

definition attempted :: "world \<Rightarrow> str list \<Rightarrow> str list" where
  "attempted w urls =
     takeWhile (\<lambda>u. \<not> wins w u) urls @ take 1 (dropWhile (\<lambda>u. \<not> wins w u) urls)"

text \<open>Example inputs of the fetcher.\<close>

definition gitlab_url :: str where
  "gitlab_url = asc ''https://gitlab.com/o/r''"

text \<open>The clone exits with 128; every archive answers 200, and only the master archive unpacks.\<close>

definition page_then_archive :: world where
  "page_then_archive =
     \<lparr>subprocess_run = (\<lambda>u. Inr 128),
      requests_get = (\<lambda>u. if endswith u (asc ''main.zip'')
                            then Inr \<lparr>status_code = 200, unpacks = False\<rparr>
                            else Inr \<lparr>status_code = 200, unpacks = True\<rparr>)\<rparr>"

text \<open>The clone times out; the first archive answers 200 and unpacks.\<close>

definition timeout_then_archive :: world where
  "timeout_then_archive =
     \<lparr>subprocess_run = (\<lambda>u. Inl TimeoutExpired),
      requests_get = (\<lambda>u. Inr \<lparr>status_code = 200, unpacks = True\<rparr>)\<rparr>"

text \<open>The clone raises an exception that its handler does not name.\<close>

definition clone_raises :: world where
  "clone_raises =
     \<lparr>subprocess_run = (\<lambda>u. Inl ValueError),
      requests_get = (\<lambda>u. Inl RequestException)\<rparr>"





section \<open>Properties\<close>

subsection \<open>Strings\<close>

lemma str_in_iff_sublist: "str_in s t = sublist s t"
  by (induction t) (simp_all add: sublist_Cons_right)

lemma sublist_map_lower: "sublist s t \<Longrightarrow> sublist (map f s) (map f t)"
proof -
  assume "sublist s t"
  then obtain ps ss where "t = ps @ s @ ss" by (auto simp: sublist_def)
  then have "map f t = map f ps @ map f s @ map f ss" by simp
  then show ?thesis unfolding sublist_def by blast
qed

lemma detect_iff:
  "lang \<in> detect_languages_in_content lower content \<longleftrightarrow>
     (\<exists>indicators. (lang, indicators) \<in> set language_indicators \<and>
        (\<exists>indicator \<in> set indicators. sublist indicator (lower content)))"
  unfolding detect_languages_in_content_def Let_def
  by (force simp: list_ex_iff str_in_iff_sublist)

subsection \<open>LanguageContentDetector\<close>

lemma catalog_names:
  "map fst language_indicators = map asc [''english'', ''hindi'', ''bengali'', ''tamil'', ''telugu'',
       ''marathi'', ''gujarati'', ''kannada'', ''malayalam'', ''punjabi'', ''oriya'', ''assamese'',
       ''urdu'', ''sanskrit'', ''kashmiri'', ''nepali'', ''sinhala'']"
  by (simp add: language_indicators_def)

lemma catalog_card: "card language_catalog = 17"
  unfolding language_catalog_def catalog_names by (simp add: asc_def)

text \<open>
  Claim C3, as amended. For arbitrary text, the detector's result is a subset of the fixed
  catalog, which has 17 entries (English and the 16 listed Indic languages), and a language
  is in the result exactly when one of its catalogued indicators occurs as a substring of
  the lower-cased content.
\<close>

theorem detect_languages_within_catalog:
  "detect_languages_in_content lower content \<subseteq> language_catalog
   \<and> language_catalog = set (map asc [''english'', ''hindi'', ''bengali'', ''tamil'', ''telugu'',
       ''marathi'', ''gujarati'', ''kannada'', ''malayalam'', ''punjabi'', ''oriya'', ''assamese'',
       ''urdu'', ''sanskrit'', ''kashmiri'', ''nepali'', ''sinhala''])
   \<and> card language_catalog = 17
   \<and> (lang \<in> detect_languages_in_content lower content \<longleftrightarrow>
        (\<exists>indicators. (lang, indicators) \<in> set language_indicators \<and>
           (\<exists>indicator \<in> set indicators. sublist indicator (lower content))))"
proof -
  have "detect_languages_in_content lower content \<subseteq> language_catalog"
    unfolding detect_languages_in_content_def language_catalog_def Let_def by auto
  moreover have "language_catalog = set (map asc [''english'', ''hindi'', ''bengali'', ''tamil'', ''telugu'',
       ''marathi'', ''gujarati'', ''kannada'', ''malayalam'', ''punjabi'', ''oriya'', ''assamese'',
       ''urdu'', ''sanskrit'', ''kashmiri'', ''nepali'', ''sinhala''])"
    unfolding language_catalog_def catalog_names ..
  ultimately show ?thesis
    using catalog_card detect_iff by blast
qed

text \<open>The catalog does not have 18 entries, as claim C3 states it.\<close>

theorem catalog_not_18_counterexample: "card language_catalog \<noteq> 18"
  by (simp add: catalog_card)

theorem detect_languages_within_catalog_witness:
  "asc ''hindi'' \<in> detect_languages_in_content ascii_lower (asc ''This'')
   \<and> detect_languages_in_content ascii_lower (asc ''This'') \<subseteq> language_catalog
   \<and> card language_catalog = 17"
proof -
  have "(asc ''hindi'', [asc ''hi'',
     [0x939, 0x93f, 0x902, 0x926, 0x940],
     [0x928, 0x92e, 0x938, 0x94d, 0x924, 0x947],
     [0x927, 0x928, 0x94d, 0x92f, 0x935, 0x93e, 0x926],
     [0x915, 0x943, 0x92a, 0x92f, 0x93e],
     [0x938, 0x94d, 0x935, 0x93e, 0x917, 0x924],
     [0x905, 0x932, 0x935, 0x93f, 0x926, 0x93e]]) \<in> set language_indicators"
    by (simp add: language_indicators_def)
  moreover have "sublist (asc ''hi'') (ascii_lower (asc ''This''))"
    by (simp add: str_in_iff_sublist [symmetric] asc_def ascii_lower_def)
  ultimately show ?thesis
    using detect_languages_within_catalog [of ascii_lower "asc ''This''" "asc ''hindi''"]
    by auto
qed

lemma iso_codes:
  "map (\<lambda>(lang, indicators). (lang, hd indicators)) language_indicators =
     [(asc ''english'', asc ''en''), (asc ''hindi'', asc ''hi''), (asc ''bengali'', asc ''bn''),
      (asc ''tamil'', asc ''ta''), (asc ''telugu'', asc ''te''), (asc ''marathi'', asc ''mr''),
      (asc ''gujarati'', asc ''gu''), (asc ''kannada'', asc ''kn''), (asc ''malayalam'', asc ''ml''),
      (asc ''punjabi'', asc ''pa''), (asc ''oriya'', asc ''or''), (asc ''assamese'', asc ''as''),
      (asc ''urdu'', asc ''ur''), (asc ''sanskrit'', asc ''sa''), (asc ''kashmiri'', asc ''ks''),
      (asc ''nepali'', asc ''ne''), (asc ''sinhala'', asc ''si'')]"
  by (simp add: language_indicators_def)

lemma indicators_nonempty: "(lang, indicators) \<in> set language_indicators \<Longrightarrow> indicators \<noteq> []"
  by (auto simp: language_indicators_def)

text \<open>
  Claim C10. Any text whose lower-cased form contains \<open>hi\<close> is reported as containing
  Hindi; with ASCII lower-casing this covers every spelling of \<open>hi\<close> inside any word,
  such as \<open>this\<close>. More generally the first indicator of every language is a
  two-character code, and its occurrence anywhere as a substring reports the language: no
  native script and no word boundary is required.
\<close>

theorem iso_code_fires_on_any_substring:
  "(sublist (asc ''hi'') (lower content) \<longrightarrow>
      asc ''hindi'' \<in> detect_languages_in_content lower content)
   \<and> (sublist x content \<and> ascii_lower x = asc ''hi'' \<longrightarrow>
      asc ''hindi'' \<in> detect_languages_in_content ascii_lower content)
   \<and> (\<forall>(lang, indicators) \<in> set language_indicators.
        length (hd indicators) = 2 \<and>
        (sublist (hd indicators) (lower content) \<longrightarrow>
           lang \<in> detect_languages_in_content lower content))
   \<and> asc ''hindi'' \<in> detect_languages_in_content ascii_lower (asc ''this'')"
proof -
  have hi: "(asc ''hindi'', asc ''hi'') \<in> set (map (\<lambda>(lang, indicators). (lang, hd indicators)) language_indicators)"
    unfolding iso_codes by simp
  have gen: "lang \<in> detect_languages_in_content lower' c"
    if "(lang, indicators) \<in> set language_indicators" "sublist (hd indicators) (lower' c)"
    for lang indicators lower' c
    using that indicators_nonempty [OF that(1)] detect_iff [of lang lower' c]
    by (metis hd_in_set)
  have a: "sublist (asc ''hi'') (lower' c) \<Longrightarrow> asc ''hindi'' \<in> detect_languages_in_content lower' c" for lower' c
    using hi gen by fastforce
  have b: "sublist x content \<and> ascii_lower x = asc ''hi'' \<longrightarrow>
      asc ''hindi'' \<in> detect_languages_in_content ascii_lower content"
  proof
    assume h: "sublist x content \<and> ascii_lower x = asc ''hi''"
    then have "sublist x content" by simp
    then have "sublist (ascii_lower x) (ascii_lower content)"
      unfolding ascii_lower_def by (rule sublist_map_lower)
    with h show "asc ''hindi'' \<in> detect_languages_in_content ascii_lower content"
      using a by simp
  qed
  have len: "\<forall>p \<in> set (map (\<lambda>(lang, indicators). (lang, hd indicators)) language_indicators). length (snd p) = 2"
    unfolding iso_codes by (simp add: asc_def)
  have c: "\<forall>(lang, indicators) \<in> set language_indicators.
        length (hd indicators) = 2 \<and>
        (sublist (hd indicators) (lower content) \<longrightarrow>
           lang \<in> detect_languages_in_content lower content)"
    using len gen by fastforce
  have d: "asc ''hindi'' \<in> detect_languages_in_content ascii_lower (asc ''this'')"
    by (rule a) (simp add: str_in_iff_sublist [symmetric] asc_def ascii_lower_def)
  from a b c d show ?thesis by blast
qed

theorem iso_code_fires_on_any_substring_witness:
  "asc ''hindi'' \<in> detect_languages_in_content ascii_lower (asc ''Something'')
   \<and> asc ''tamil'' \<in> detect_languages_in_content ascii_lower (asc ''data'')"
proof -
  have 1: "sublist (asc ''hi'') (ascii_lower (asc ''Something''))"
    by (simp add: str_in_iff_sublist [symmetric] asc_def ascii_lower_def)
  have 2: "(asc ''tamil'',
    [asc ''ta'',
     [0xba4, 0xbae, 0xbbf, 0xbb4, 0xbcd],
     [0xbb5, 0xba3, 0xb95, 0xbcd, 0xb95, 0xbae, 0xbcd],
     [0xba8, 0xba9, 0xbcd, 0xbb1, 0xbbf],
     [0xba4, 0xbaf, 0xbb5, 0xbc1, 0xb9a, 0xbc6, 0xbaf, 0xbcd, 0xba4, 0xbc1],
     [0xbb5, 0xbb0, 0xbb5, 0xbc7, 0xbb1, 0xbcd, 0xb95, 0xbbf, 0xbb1, 0xbcb, 0xbae, 0xbcd]]) \<in> set language_indicators"
    by (simp add: language_indicators_def)
  have 3: "sublist (asc ''ta'') (ascii_lower (asc ''data''))"
    by (simp add: str_in_iff_sublist [symmetric] asc_def ascii_lower_def)
  from iso_code_fires_on_any_substring [of ascii_lower "asc ''Something''" "[]" ] 1
  have "asc ''hindi'' \<in> detect_languages_in_content ascii_lower (asc ''Something'')" by blast
  moreover from iso_code_fires_on_any_substring [of ascii_lower "asc ''data''" "[]"] 2 3
  have "asc ''tamil'' \<in> detect_languages_in_content ascii_lower (asc ''data'')" by fastforce
  ultimately show ?thesis by simp
qed

subsection \<open>ScoringEngine and ReportAssembler\<close>

lemma dict_set_nonempty: "dict_set k v d \<noteq> []"
  by (cases d) (auto split: if_splits)

lemma analyze_files_patterns_nonempty:
  "fst (analyze_files lower re ws (ps, ls)) \<noteq> [] \<longleftrightarrow>
     ps \<noteq> [] \<or> (\<exists>w \<in> set ws. analyze_i18n_patterns re (data w) \<noteq> [])"
proof (induction ws arbitrary: ps ls)
  case Nil
  then show ?case by simp
next
  case (Cons w ws)
  show ?case
    by (cases "read_ignore (data w)") (auto simp: Let_def Cons.IH dict_set_nonempty)
qed

lemma analyze_files_languages:
  "snd (analyze_files lower re ws (ps, ls)) = ls \<union> (\<Union>w \<in> set ws. languages_in lower w)"
proof (induction ws arbitrary: ps ls)
  case Nil
  then show ?case by simp
next
  case (Cons w ws)
  show ?case
    by (cases "read_ignore (data w)") (auto simp: Let_def Cons.IH languages_in_def)
qed

lemma report_fields:
  "i18n_patterns (generate_multilingual_report lower re directory) =
     fst (analyze_files lower re (find_streamlit_files lower directory) ([], {}))"
  "detected_languages (generate_multilingual_report lower re directory) =
     snd (analyze_files lower re (find_streamlit_files lower directory) ([], {}))"
  "translation_files (generate_multilingual_report lower re directory) =
     map (\<lambda>(k, v). (k, map relative_str v)) (find_translation_files lower directory)"
  "requirements_analysis (generate_multilingual_report lower re directory) =
     analyze_requirements_file lower directory"
  "streamlit_files (generate_multilingual_report lower re directory) =
     map (\<lambda>w. relative_str (file_path w)) (find_streamlit_files lower directory)"
  "confidence_score (generate_multilingual_report lower re directory) =
     min (raw_score lower re directory) 100"
  "is_multilingual (generate_multilingual_report lower re directory) =
     (30 \<le> raw_score lower re directory)"
  by (simp_all add: generate_multilingual_report_def raw_score_def Let_def case_prod_beta)

lemma report_recommendations:
  "recommendations (generate_multilingual_report lower re directory) =
     (if \<not> 30 \<le> raw_score lower re directory
      then [rec_adopt_library, rec_language_widget, rec_create_translations, rec_unicode_fonts]
      else (if i18n_packages (analyze_requirements_file lower directory) = []
            then [rec_document_dependencies] else [])
         @ (if \<not> any_values (find_translation_files lower directory)
            then [rec_standard_formats] else [])
         @ [rec_unicode_support, rec_test_inputs])"
  by (simp add: generate_multilingual_report_def raw_score_def Let_def case_prod_beta)

lemma any_values_relative:
  "any_values (map (\<lambda>(k, v). (k, map f v)) d) = any_values d"
  by (induction d) (auto simp: any_values_def)

lemma raw_score_values:
  "raw_score lower re directory \<in> {0, 10, 20, 30, 40, 50, 60, 70, 80, 90, 100}"
  unfolding raw_score_def by simp

text \<open>
  Claim C1. The confidence score of every report is the clamp to \<open>[0, 100]\<close> of the sum
  of four contributions: 40 if some candidate file has a detected pattern category, 30 if
  some translation-file bucket is non-empty, 20 if a recognised i18n package was found, 10
  if more than one language key was detected. It is therefore one of 0, 10, ..., 100, and
  the report is multilingual exactly when the score is at least 30.
\<close>

theorem confidence_score_clamped_sum:
  "(let r = generate_multilingual_report lower re directory in
      confidence_score r =
        min 100 (max 0
          ((if i18n_patterns r \<noteq> [] then 40 else 0)
         + (if any_values (translation_files r) then 30 else 0)
         + (if i18n_packages (requirements_analysis r) \<noteq> [] then 20 else 0)
         + (if 1 < card (detected_languages r) then 10 else 0)))
    \<and> (i18n_patterns r \<noteq> [] \<longleftrightarrow>
         (\<exists>w \<in> set (find_streamlit_files lower directory).
            analyze_i18n_patterns re (data w) \<noteq> []))
    \<and> (any_values (translation_files r) \<longleftrightarrow>
         (\<exists>(b, files) \<in> set (find_translation_files lower directory). files \<noteq> []))
    \<and> detected_languages r =
         (\<Union>w \<in> set (find_streamlit_files lower directory). languages_in lower w)
    \<and> confidence_score r \<in> {0, 10, 20, 30, 40, 50, 60, 70, 80, 90, 100}
    \<and> (is_multilingual r \<longleftrightarrow> 30 \<le> confidence_score r))"
proof -
  let ?r = "generate_multilingual_report lower re directory"
  have v: "raw_score lower re directory \<in> {0, 10, 20, 30, 40, 50, 60, 70, 80, 90, 100}"
    by (rule raw_score_values)
  then have le: "0 \<le> raw_score lower re directory" "raw_score lower re directory \<le> 100"
    by auto
  have 1: "confidence_score ?r =
        min 100 (max 0
          ((if i18n_patterns ?r \<noteq> [] then 40 else 0)
         + (if any_values (translation_files ?r) then 30 else 0)
         + (if i18n_packages (requirements_analysis ?r) \<noteq> [] then 20 else 0)
         + (if 1 < card (detected_languages ?r) then 10 else 0)))"
    using le unfolding report_fields any_values_relative by (simp add: raw_score_def)
  have 2: "i18n_patterns ?r \<noteq> [] \<longleftrightarrow>
         (\<exists>w \<in> set (find_streamlit_files lower directory).
            analyze_i18n_patterns re (data w) \<noteq> [])"
    unfolding report_fields by (simp add: analyze_files_patterns_nonempty)
  have 3: "any_values (translation_files ?r) \<longleftrightarrow>
         (\<exists>(b, files) \<in> set (find_translation_files lower directory). files \<noteq> [])"
    unfolding report_fields any_values_relative by (simp add: any_values_def list_ex_iff)
  have 6: "detected_languages ?r =
         (\<Union>w \<in> set (find_streamlit_files lower directory). languages_in lower w)"
    unfolding report_fields by (simp add: analyze_files_languages)
  have 4: "confidence_score ?r \<in> {0, 10, 20, 30, 40, 50, 60, 70, 80, 90, 100}"
    using v le unfolding report_fields by (simp add: min_def)
  have 5: "is_multilingual ?r \<longleftrightarrow> 30 \<le> confidence_score ?r"
    using le unfolding report_fields by (simp add: min_def)
  from 1 2 3 4 5 6 show ?thesis unfolding Let_def by blast
qed

text \<open>
  Claim C8. The recommendations are a fixed branch on the classification: the four
  standard suggestions when the report is not multilingual; otherwise the dependency
  suggestion exactly when no i18n package was found, the translation-format suggestion
  exactly when every translation bucket is empty, and always the two suggestions on
  Unicode support and on testing with Indic input.
\<close>

theorem recommendations_branch:
  "(let r = generate_multilingual_report lower re directory in
      (\<not> is_multilingual r \<longrightarrow>
         recommendations r =
           [rec_adopt_library, rec_language_widget, rec_create_translations, rec_unicode_fonts])
    \<and> (is_multilingual r \<longrightarrow>
         recommendations r =
           (if i18n_packages (requirements_analysis r) = [] then [rec_document_dependencies] else [])
         @ (if \<not> any_values (translation_files r) then [rec_standard_formats] else [])
         @ [rec_unicode_support, rec_test_inputs]))"
  unfolding Let_def report_fields report_recommendations any_values_relative by simp

lemma no_candidates_score:
  assumes "find_streamlit_files lower directory = []"
  shows "raw_score lower re directory =
           (if any_values (find_translation_files lower directory) then 30 else 0)
         + (if i18n_packages (analyze_requirements_file lower directory) \<noteq> [] then 20 else 0)"
  unfolding raw_score_def assms by simp

text \<open>
  Claim C2, as amended. When file discovery finds no candidate file, the report lists no
  candidate file, no pattern match and no language, and its score is 30 for a non-empty
  translation bucket plus 20 for a recognised package; it is multilingual exactly when a
  translation bucket is non-empty. The score is 0 and the report is not multilingual when,
  in addition, no translation file and no i18n package is found.
\<close>

theorem no_candidate_files_report:
  assumes "find_streamlit_files lower directory = []"
  shows "(let r = generate_multilingual_report lower re directory in
            streamlit_files r = []
          \<and> i18n_patterns r = []
          \<and> detected_languages r = {}
          \<and> confidence_score r =
               (if any_values (translation_files r) then 30 else 0)
             + (if i18n_packages (requirements_analysis r) \<noteq> [] then 20 else 0)
          \<and> (is_multilingual r \<longleftrightarrow> any_values (translation_files r))
          \<and> (\<not> any_values (translation_files r) \<and> i18n_packages (requirements_analysis r) = []
               \<longrightarrow> confidence_score r = 0 \<and> \<not> is_multilingual r))"
  unfolding Let_def report_fields any_values_relative no_candidates_score [OF assms]
  by (simp add: assms)

lemma map_of_dict_set: "map_of (dict_set k v d) = (map_of d)(k \<mapsto> v)"
  by (induction d) (auto simp: fun_eq_iff)

lemma analyze_files_other_key:
  "k \<notin> (\<lambda>w. relative_str (file_path w)) ` set ws \<Longrightarrow>
   map_of (fst (analyze_files lower re ws (ps, ls))) k = map_of ps k"
proof (induction ws arbitrary: ps ls)
  case Nil
  then show ?case by simp
next
  case (Cons w ws)
  then show ?case
    by (cases "read_ignore (data w)") (auto simp: Let_def map_of_dict_set)
qed

lemma analyze_files_entry:
  "distinct (map (\<lambda>w. relative_str (file_path w)) ws) \<Longrightarrow> w \<in> set ws \<Longrightarrow>
   analyze_i18n_patterns re (data w) \<noteq> [] \<Longrightarrow>
   map_of (fst (analyze_files lower re ws (ps, ls))) (relative_str (file_path w)) =
     Some (analyze_i18n_patterns re (data w))"
proof (induction ws arbitrary: ps ls)
  case Nil
  then show ?case by simp
next
  case (Cons a ws)
  show ?case
  proof (cases "w = a")
    case True
    with Cons.prems show ?thesis
      by (cases "read_ignore (data a)")
         (auto simp: Let_def analyze_files_other_key map_of_dict_set)
  next
    case False
    with Cons.prems have "w \<in> set ws" "distinct (map (\<lambda>w. relative_str (file_path w)) ws)"
      by auto
    with Cons.IH Cons.prems(3) show ?thesis
      by (cases "read_ignore (data a)") (auto simp: Let_def)
  qed
qed

lemma gettext_category:
  assumes "read_ignore d = Inr content"
    and "re (lit ''import'' @ [Plus Space] @ lit ''gettext'') content \<noteq> [] \<or>
         re (lit ''from'' @ [Plus Space] @ lit ''gettext'' @ [Plus Space] @ lit ''import'') content \<noteq> []"
  shows "\<exists>res rest ms more. analyze_i18n_patterns re d = (asc ''gettext'', res) # rest \<and>
           res = (asc ''imports'', ms) # more \<and> ms \<noteq> []"
  using assms
  unfolding analyze_i18n_patterns_def patterns_def category_matches_def
  by auto

lemma po_bucket:
  assumes "x \<in> set (os_walk keep_visible_dir directory)" "endswith (fname x) (asc ''.po'')"
  shows "\<exists>files. (po_files, files) \<in> set (find_translation_files lower directory) \<and> files \<noteq> []"
proof -
  have "classify lower (fname x) = Some po_files"
    using assms(2) by (simp add: classify_def)
  with assms(1) have "filter (\<lambda>w. classify lower (fname w) = Some po_files)
                       (os_walk keep_visible_dir directory) \<noteq> []"
    by (auto simp: filter_empty_conv)
  then show ?thesis
    unfolding find_translation_files_def buckets_def by simp
qed

text \<open>
  Claim C6, as amended. When a candidate file (one that file discovery selects) has a match
  of one of the two gettext import patterns, and the walk that skips hidden directories
  meets a file whose name ends in \<open>.po\<close>, the report's pattern matches hold a non-empty
  gettext category for that file, the \<open>po_files\<close> bucket is non-empty and the score is at
  least 70. Candidate files are told apart by their relative paths.
\<close>

theorem gettext_import_and_po_file_score:
  assumes "w \<in> set (find_streamlit_files lower directory)"
    and "read_ignore (data w) = Inr content"
    and "re (lit ''import'' @ [Plus Space] @ lit ''gettext'') content \<noteq> [] \<or>
         re (lit ''from'' @ [Plus Space] @ lit ''gettext'' @ [Plus Space] @ lit ''import'') content \<noteq> []"
    and "x \<in> set (os_walk keep_visible_dir directory)"
    and "endswith (fname x) (asc ''.po'')"
    and "distinct (map (\<lambda>w. relative_str (file_path w)) (find_streamlit_files lower directory))"
  shows "(let r = generate_multilingual_report lower re directory in
            (\<exists>categories res ms.
                (relative_str (file_path w), categories) \<in> set (i18n_patterns r)
              \<and> (asc ''gettext'', res) \<in> set categories
              \<and> (asc ''imports'', ms) \<in> set res \<and> ms \<noteq> [])
          \<and> (\<exists>files. (po_files, files) \<in> set (translation_files r) \<and> files \<noteq> [])
          \<and> 70 \<le> confidence_score r)"
proof -
  let ?r = "generate_multilingual_report lower re directory"
  obtain res rest ms more where g:
    "analyze_i18n_patterns re (data w) = (asc ''gettext'', res) # rest"
    "res = (asc ''imports'', ms) # more" "ms \<noteq> []"
    using gettext_category [of "data w" content re] assms(2) assms(3) by blast
  then have ne: "analyze_i18n_patterns re (data w) \<noteq> []" by simp
  have "map_of (i18n_patterns ?r) (relative_str (file_path w)) =
          Some (analyze_i18n_patterns re (data w))"
    unfolding report_fields by (rule analyze_files_entry [OF assms(6) assms(1) ne])
  then have "(relative_str (file_path w), analyze_i18n_patterns re (data w)) \<in> set (i18n_patterns ?r)"
    by (rule map_of_SomeD)
  with g have 1: "\<exists>categories res ms.
                (relative_str (file_path w), categories) \<in> set (i18n_patterns ?r)
              \<and> (asc ''gettext'', res) \<in> set categories
              \<and> (asc ''imports'', ms) \<in> set res \<and> ms \<noteq> []"
    by (metis list.set_intros(1))
  obtain files where f: "(po_files, files) \<in> set (find_translation_files lower directory)" "files \<noteq> []"
    using po_bucket [OF assms(4) assms(5)] by blast
  then have "(po_files, map relative_str files) \<in> set (translation_files ?r)"
    unfolding report_fields by force
  with f(2) have 2: "\<exists>files. (po_files, files) \<in> set (translation_files ?r) \<and> files \<noteq> []"
    by (metis map_is_Nil_conv)
  have p: "fst (analyze_files lower re (find_streamlit_files lower directory) ([], {})) \<noteq> []"
    using assms(1) ne by (auto simp: analyze_files_patterns_nonempty)
  have t: "any_values (find_translation_files lower directory)"
    using f by (auto simp: any_values_def list_ex_iff)
  have "70 \<le> raw_score lower re directory"
    unfolding raw_score_def using p t by simp
  then have 3: "70 \<le> confidence_score ?r"
    unfolding report_fields by simp
  from 1 2 3 show ?thesis unfolding Let_def by blast
qed

lemma walk_app_with_po:
  "os_walk keep app_with_po =
     [\<lparr>root = [], fname = asc ''app.py'', data = Text (asc ''st.hi en'')\<rparr>,
      \<lparr>root = [], fname = asc ''a.po'', data = Text []\<rparr>]"
  by (simp add: os_walk_def app_with_po_def)

lemma candidates_app_with_po:
  "find_streamlit_files ascii_lower app_with_po =
     [\<lparr>root = [], fname = asc ''app.py'', data = Text (asc ''st.hi en'')\<rparr>]"
  unfolding find_streamlit_files_def walk_app_with_po
  by (simp add: is_streamlit_file_def endswith_def asc_def ascii_lower_def)

lemma no_patterns_app: "analyze_i18n_patterns ascii_findall (Text (asc ''st.hi en'')) = []"
  by (simp add: analyze_i18n_patterns_def patterns_def category_matches_def ascii_findall_def
      lit_def asc_def ascii_lower_def)

lemma languages_app:
  "detect_languages_in_content ascii_lower (asc ''st.hi en'') = {asc ''english'', asc ''hindi''}"
  by (simp add: detect_languages_in_content_def language_indicators_def asc_def ascii_lower_def)

lemma translations_app_with_po:
  "find_translation_files ascii_lower app_with_po =
     [(po_files, [[asc ''a.po'']]), (mo_files, []), (json_translations, []),
      (yaml_translations, []), (properties_files, [])]"
  unfolding find_translation_files_def walk_app_with_po buckets_def
  by (simp add: classify_def endswith_def asc_def has_keyword_def name_keywords_def
      ascii_lower_def file_path_def)

lemma requirements_app_with_po:
  "analyze_requirements_file ascii_lower app_with_po = \<lparr>requirements_files = [], i18n_packages = []\<rparr>"
  by (simp add: analyze_requirements_file_def manifest_names_def lookup_entry_def app_with_po_def asc_def)

theorem confidence_score_clamped_sum_witness:
  "confidence_score (generate_multilingual_report ascii_lower ascii_findall app_with_po) = 40
   \<and> is_multilingual (generate_multilingual_report ascii_lower ascii_findall app_with_po)
   \<and> detected_languages (generate_multilingual_report ascii_lower ascii_findall app_with_po) =
       {asc ''english'', asc ''hindi''}"
proof -
  let ?r = "generate_multilingual_report ascii_lower ascii_findall app_with_po"
  have p: "i18n_patterns ?r = []"
    unfolding report_fields candidates_app_with_po by (simp add: no_patterns_app)
  have l: "detected_languages ?r = {asc ''english'', asc ''hindi''}"
    unfolding report_fields candidates_app_with_po by (simp add: no_patterns_app languages_app)
  have c: "card (detected_languages ?r) = 2"
    unfolding l by (simp add: asc_def)
  have t: "any_values (translation_files ?r)"
    unfolding report_fields translations_app_with_po by (simp add: any_values_def)
  have d: "i18n_packages (requirements_analysis ?r) = []"
    unfolding report_fields requirements_app_with_po by simp
  from confidence_score_clamped_sum [of ascii_lower ascii_findall app_with_po] p c t d l
  show ?thesis by (simp add: Let_def)
qed

theorem recommendations_branch_witness:
  "recommendations (generate_multilingual_report ascii_lower ascii_findall app_with_po) =
     [rec_document_dependencies, rec_unicode_support, rec_test_inputs]
   \<and> recommendations (generate_multilingual_report ascii_lower ascii_findall []) =
     [rec_adopt_library, rec_language_widget, rec_create_translations, rec_unicode_fonts]"
proof -
  let ?r = "generate_multilingual_report ascii_lower ascii_findall app_with_po"
  let ?e = "generate_multilingual_report ascii_lower ascii_findall []"
  have t: "any_values (translation_files ?r)"
    unfolding report_fields translations_app_with_po by (simp add: any_values_def)
  have d: "i18n_packages (requirements_analysis ?r) = []"
    unfolding report_fields requirements_app_with_po by simp
  have "30 \<le> raw_score ascii_lower ascii_findall app_with_po"
    unfolding raw_score_def translations_app_with_po by (simp add: any_values_def)
  then have m: "is_multilingual ?r"
    unfolding report_fields .
  have "raw_score ascii_lower ascii_findall [] = 0"
    by (simp add: raw_score_def find_streamlit_files_def os_walk_def find_translation_files_def
        buckets_def any_values_def analyze_requirements_file_def manifest_names_def lookup_entry_def)
  then have n: "\<not> is_multilingual ?e"
    unfolding report_fields by simp
  from recommendations_branch [of ascii_lower ascii_findall app_with_po] m t d
  have 1: "recommendations ?r = [rec_document_dependencies, rec_unicode_support, rec_test_inputs]"
    by (simp add: Let_def)
  from recommendations_branch [of ascii_lower ascii_findall "[]"] n
  have 2: "recommendations ?e =
     [rec_adopt_library, rec_language_widget, rec_create_translations, rec_unicode_fonts]"
    by (simp add: Let_def)
  from 1 2 show ?thesis by simp
qed

lemma walk_only_po:
  "os_walk keep only_po = [\<lparr>root = [], fname = asc ''messages.po'', data = Text []\<rparr>]"
  by (simp add: os_walk_def only_po_def)

lemma candidates_only_po: "find_streamlit_files ascii_lower only_po = []"
  unfolding find_streamlit_files_def walk_only_po
  by (simp add: is_streamlit_file_def endswith_def asc_def)

lemma translations_only_po: "any_values (find_translation_files ascii_lower only_po)"
  unfolding find_translation_files_def walk_only_po buckets_def
  by (simp add: classify_def endswith_def asc_def any_values_def)

lemma requirements_only_po:
  "analyze_requirements_file ascii_lower only_po = \<lparr>requirements_files = [], i18n_packages = []\<rparr>"
  by (simp add: analyze_requirements_file_def manifest_names_def lookup_entry_def only_po_def asc_def)

text \<open>
  A repository holding one \<open>.po\<close> file has no candidate file, yet its score is 30 and it
  is classified multilingual: claim C2 as stated fails.
\<close>

theorem no_candidate_files_counterexample:
  "find_streamlit_files ascii_lower only_po = []
   \<and> streamlit_files (generate_multilingual_report ascii_lower ascii_findall only_po) = []
   \<and> confidence_score (generate_multilingual_report ascii_lower ascii_findall only_po) = 30
   \<and> is_multilingual (generate_multilingual_report ascii_lower ascii_findall only_po)"
proof -
  have "raw_score ascii_lower ascii_findall only_po = 30"
    unfolding raw_score_def candidates_only_po requirements_only_po
    using translations_only_po by simp
  then show ?thesis
    unfolding report_fields candidates_only_po by simp
qed

lemma walk_only_readme:
  "os_walk keep only_readme = [\<lparr>root = [], fname = asc ''README.md'', data = Text (asc ''hello'')\<rparr>]"
  by (simp add: os_walk_def only_readme_def)

theorem no_candidate_files_report_witness:
  "find_streamlit_files ascii_lower only_readme = []
   \<and> streamlit_files (generate_multilingual_report ascii_lower ascii_findall only_readme) = []
   \<and> confidence_score (generate_multilingual_report ascii_lower ascii_findall only_readme) = 0
   \<and> \<not> is_multilingual (generate_multilingual_report ascii_lower ascii_findall only_readme)"
proof -
  let ?r = "generate_multilingual_report ascii_lower ascii_findall only_readme"
  have c: "find_streamlit_files ascii_lower only_readme = []"
    unfolding find_streamlit_files_def walk_only_readme
    by (simp add: is_streamlit_file_def endswith_def asc_def)
  have t: "\<not> any_values (translation_files ?r)"
    unfolding report_fields any_values_relative find_translation_files_def walk_only_readme buckets_def
    by (simp add: classify_def endswith_def asc_def any_values_def has_keyword_def)
  have d: "i18n_packages (requirements_analysis ?r) = []"
    unfolding report_fields
    by (simp add: analyze_requirements_file_def manifest_names_def lookup_entry_def only_readme_def asc_def)
  from no_candidate_files_report [OF c, of ascii_findall] t d c
  show ?thesis by (simp add: Let_def)
qed

lemma walk_gettext_outside:
  "os_walk keep gettext_outside_streamlit =
     [\<lparr>root = [], fname = asc ''i18n.py'', data = Text (asc ''import gettext'')\<rparr>,
      \<lparr>root = [], fname = asc ''messages.po'', data = Text []\<rparr>]"
  by (simp add: os_walk_def gettext_outside_streamlit_def)

lemma candidates_gettext_outside: "find_streamlit_files ascii_lower gettext_outside_streamlit = []"
  unfolding find_streamlit_files_def walk_gettext_outside
  by (simp add: is_streamlit_file_def endswith_def asc_def ascii_lower_def)

text \<open>
  A repository with a gettext import in a file that does not mention Streamlit, and a
  \<open>.po\<close> file: no pattern is reported and the score is 30, so claim C6 as stated fails.
\<close>

theorem gettext_import_and_po_file_counterexample:
  "ascii_findall (lit ''import'' @ [Plus Space] @ lit ''gettext'') (asc ''import gettext'') =
     [asc ''import gettext'']
   \<and> (po_files, [asc ''messages.po'']) \<in>
       set (translation_files (generate_multilingual_report ascii_lower ascii_findall gettext_outside_streamlit))
   \<and> i18n_patterns (generate_multilingual_report ascii_lower ascii_findall gettext_outside_streamlit) = []
   \<and> confidence_score (generate_multilingual_report ascii_lower ascii_findall gettext_outside_streamlit) = 30"
proof -
  have 1: "ascii_findall (lit ''import'' @ [Plus Space] @ lit ''gettext'') (asc ''import gettext'') =
     [asc ''import gettext'']"
    by (simp add: ascii_findall_def lit_def asc_def ascii_lower_def)
  have t: "find_translation_files ascii_lower gettext_outside_streamlit =
     [(po_files, [[asc ''messages.po'']]), (mo_files, []), (json_translations, []),
      (yaml_translations, []), (properties_files, [])]"
    unfolding find_translation_files_def walk_gettext_outside buckets_def
    by (simp add: classify_def endswith_def asc_def has_keyword_def name_keywords_def
      ascii_lower_def file_path_def)
  have d: "analyze_requirements_file ascii_lower gettext_outside_streamlit =
      \<lparr>requirements_files = [], i18n_packages = []\<rparr>"
    by (simp add: analyze_requirements_file_def manifest_names_def lookup_entry_def
        gettext_outside_streamlit_def asc_def)
  have "raw_score ascii_lower ascii_findall gettext_outside_streamlit = 30"
    unfolding raw_score_def candidates_gettext_outside d t by (simp add: any_values_def)
  with 1 show ?thesis
    unfolding report_fields candidates_gettext_outside t by (simp add: relative_str_def)
qed

lemma candidates_gettext_in:
  "find_streamlit_files ascii_lower gettext_in_streamlit =
     [\<lparr>root = [], fname = asc ''app.py'', data = Text (asc ''import gettext, streamlit'')\<rparr>]"
  unfolding find_streamlit_files_def
  by (simp add: os_walk_def gettext_in_streamlit_def keep_source_dir_def startswith_def
      is_streamlit_file_def endswith_def asc_def ascii_lower_def)

theorem gettext_import_and_po_file_score_witness:
  "(asc ''app.py'',
      [(asc ''gettext'', [(asc ''imports'', [asc ''import gettext''])])])
     \<in> set (i18n_patterns (generate_multilingual_report ascii_lower ascii_findall gettext_in_streamlit))
   \<and> (\<exists>files. (po_files, files) \<in>
         set (translation_files (generate_multilingual_report ascii_lower ascii_findall gettext_in_streamlit))
       \<and> files \<noteq> [])
   \<and> 70 \<le> confidence_score (generate_multilingual_report ascii_lower ascii_findall gettext_in_streamlit)"
proof -
  let ?w = "\<lparr>root = [], fname = asc ''app.py'', data = Text (asc ''import gettext, streamlit'')\<rparr>"
  let ?x = "\<lparr>root = [asc ''locale''], fname = asc ''hi.po'', data = Text []\<rparr>"
  have 1: "?w \<in> set (find_streamlit_files ascii_lower gettext_in_streamlit)"
    unfolding candidates_gettext_in by simp
  have 2: "read_ignore (data ?w) = Inr (asc ''import gettext, streamlit'')" by simp
  have 3: "ascii_findall (lit ''import'' @ [Plus Space] @ lit ''gettext'') (asc ''import gettext, streamlit'') \<noteq> [] \<or>
     ascii_findall (lit ''from'' @ [Plus Space] @ lit ''gettext'' @ [Plus Space] @ lit ''import'') (asc ''import gettext, streamlit'') \<noteq> []"
    by (simp add: ascii_findall_def lit_def asc_def ascii_lower_def)
  have 4: "?x \<in> set (os_walk keep_visible_dir gettext_in_streamlit)"
    by (simp add: os_walk_def gettext_in_streamlit_def keep_visible_dir_def startswith_def asc_def)
  have 5: "endswith (fname ?x) (asc ''.po'')"
    by (simp add: endswith_def asc_def)
  have 6: "distinct (map (\<lambda>w. relative_str (file_path w)) (find_streamlit_files ascii_lower gettext_in_streamlit))"
    unfolding candidates_gettext_in by simp
  have a: "analyze_i18n_patterns ascii_findall (Text (asc ''import gettext, streamlit'')) =
      [(asc ''gettext'', [(asc ''imports'', [asc ''import gettext''])])]"
    by (simp add: analyze_i18n_patterns_def patterns_def category_matches_def ascii_findall_def
      lit_def asc_def ascii_lower_def)
  have p: "i18n_patterns (generate_multilingual_report ascii_lower ascii_findall gettext_in_streamlit) =
      [(asc ''app.py'', [(asc ''gettext'', [(asc ''imports'', [asc ''import gettext''])])])]"
    unfolding report_fields candidates_gettext_in
    by (simp add: a relative_str_def file_path_def)
  from gettext_import_and_po_file_score
         [where re = ascii_findall and content = "asc ''import gettext, streamlit''", OF 1 2 3 4 5 6] p
  show ?thesis by (simp add: Let_def)
qed

subsection \<open>TranslationFileIndex\<close>

lemma endswith_iff_suffix: "endswith f p = suffix p f"
  by (simp add: endswith_def suffix_to_prefix)

lemma endswith_last: "endswith f p \<Longrightarrow> p \<noteq> [] \<Longrightarrow> last f = last p"
  by (auto simp: endswith_iff_suffix suffix_def)

lemma endswith_same_length: "endswith f p \<Longrightarrow> endswith f q \<Longrightarrow> length p = length q \<Longrightarrow> p = q"
  by (auto simp: endswith_iff_suffix suffix_def append_eq_append_conv)

lemma extension_facts:
  "endswith f (asc ''.po'') \<Longrightarrow> \<not> endswith f (asc ''.mo'')"
  "endswith f (asc ''.po'') \<Longrightarrow> \<not> endswith f (asc ''.json'')"
  "endswith f (asc ''.po'') \<Longrightarrow> \<not> endswith f (asc ''.yml'')"
  "endswith f (asc ''.po'') \<Longrightarrow> \<not> endswith f (asc ''.yaml'')"
  "endswith f (asc ''.po'') \<Longrightarrow> \<not> endswith f (asc ''.properties'')"
  "endswith f (asc ''.mo'') \<Longrightarrow> \<not> endswith f (asc ''.json'')"
  "endswith f (asc ''.mo'') \<Longrightarrow> \<not> endswith f (asc ''.yml'')"
  "endswith f (asc ''.mo'') \<Longrightarrow> \<not> endswith f (asc ''.yaml'')"
  "endswith f (asc ''.mo'') \<Longrightarrow> \<not> endswith f (asc ''.properties'')"
  "endswith f (asc ''.json'') \<Longrightarrow> \<not> endswith f (asc ''.yml'')"
  "endswith f (asc ''.json'') \<Longrightarrow> \<not> endswith f (asc ''.yaml'')"
  "endswith f (asc ''.json'') \<Longrightarrow> \<not> endswith f (asc ''.properties'')"
  "endswith f (asc ''.yml'') \<Longrightarrow> \<not> endswith f (asc ''.properties'')"
  "endswith f (asc ''.yaml'') \<Longrightarrow> \<not> endswith f (asc ''.properties'')"
proof -
  show "endswith f (asc ''.po'') \<Longrightarrow> \<not> endswith f (asc ''.mo'')"
    using endswith_same_length [of f "asc ''.po''" "asc ''.mo''"] by (auto simp: asc_def)
qed (auto dest!: endswith_last simp: asc_def)

lemma classify_order_irrelevant: "classify lower f = classify_extension_first lower f"
  unfolding classify_def classify_extension_first_def
  using extension_facts [of f] by auto

lemma has_keyword_iff:
  "has_keyword lower f \<longleftrightarrow>
     (\<exists>keyword \<in> set [asc ''lang'', asc ''translation'', asc ''locale'', asc ''i18n''].
        sublist keyword (lower f))"
  unfolding has_keyword_def name_keywords_def list_ex_iff str_in_iff_sublist ..

lemma classify_cases:
  "classify lower f = Some po_files \<longleftrightarrow> endswith f (asc ''.po'')"
  "classify lower f = Some mo_files \<longleftrightarrow> endswith f (asc ''.mo'')"
  "classify lower f = Some json_translations \<longleftrightarrow> endswith f (asc ''.json'') \<and> has_keyword lower f"
  "classify lower f = Some yaml_translations \<longleftrightarrow>
     (endswith f (asc ''.yml'') \<or> endswith f (asc ''.yaml'')) \<and> has_keyword lower f"
  "classify lower f = Some properties_files \<longleftrightarrow> endswith f (asc ''.properties'')"
  unfolding classify_def using extension_facts [of f] by auto

lemma files_here_root: "w \<in> set (files_here r es) \<Longrightarrow> root w = r"
  by (induction r es rule: files_here.induct) auto

lemma walk_subdirs_root: "w \<in> set (walk_subdirs keep r es) \<Longrightarrow> set r \<subseteq> set (root w)"
proof (induction keep r es rule: walk_subdirs.induct)
  case (3 keep r d cs es)
  from "3.prems" consider
    (here) "keep d" "w \<in> set (files_here (r @ [d]) cs)"
    | (below) "keep d" "w \<in> set (walk_subdirs keep (r @ [d]) cs)"
    | (rest) "w \<in> set (walk_subdirs keep r es)"
    by (auto split: if_splits)
  then show ?case
  proof cases
    case here
    then have "root w = r @ [d]" by (simp add: files_here_root)
    then show ?thesis by auto
  next
    case below
    with "3.IH"(1) have "set (r @ [d]) \<subseteq> set (root w)" by simp
    then show ?thesis by auto
  next
    case rest
    with "3.IH"(2) show ?thesis by simp
  qed
qed simp_all

lemma walk_subdirs_pruned:
  "list_all keep r \<Longrightarrow>
   walk_subdirs keep r es =
     filter (\<lambda>w. list_all keep (root w)) (walk_subdirs (\<lambda>d. True) r es)"
proof (induction keep r es rule: walk_subdirs.induct)
  case (1 keep r)
  then show ?case by simp
next
  case (2 keep r f d es)
  then show ?case by simp
next
  case (3 keep r d cs es)
  have rest: "walk_subdirs keep r es =
     filter (\<lambda>w. list_all keep (root w)) (walk_subdirs (\<lambda>d. True) r es)"
    using "3.IH"(2) "3.prems" by simp
  show ?case
  proof (cases "keep d")
    case True
    then have k: "list_all keep (r @ [d])" using "3.prems" by simp
    then have here: "filter (\<lambda>w. list_all keep (root w)) (files_here (r @ [d]) cs) =
        files_here (r @ [d]) cs"
      by (auto simp: filter_id_conv files_here_root)
    have below: "walk_subdirs keep (r @ [d]) cs =
        filter (\<lambda>w. list_all keep (root w)) (walk_subdirs (\<lambda>d. True) (r @ [d]) cs)"
      using "3.IH"(1) True k by simp
    from True here below rest show ?thesis by simp
  next
    case False
    have "\<not> list_all keep (root w)"
      if "w \<in> set (files_here (r @ [d]) cs) \<union> set (walk_subdirs (\<lambda>d. True) (r @ [d]) cs)" for w
    proof -
      from that have "d \<in> set (root w)"
        using files_here_root [of w "r @ [d]" cs] walk_subdirs_root [of w "\<lambda>d. True" "r @ [d]" cs]
        by auto
      with False show ?thesis by (auto simp: list_all_iff)
    qed
    then have "filter (\<lambda>w. list_all keep (root w))
        (files_here (r @ [d]) cs @ walk_subdirs (\<lambda>d. True) (r @ [d]) cs) = []"
      by (auto simp: filter_empty_conv)
    with False rest show ?thesis by simp
  qed
qed

lemma os_walk_pruned:
  "os_walk keep directory =
     filter (\<lambda>w. list_all keep (root w)) (os_walk (\<lambda>d. True) directory)"
proof -
  have "filter (\<lambda>w. list_all keep (root w)) (files_here [] directory) = files_here [] directory"
    by (auto simp: filter_id_conv files_here_root)
  then show ?thesis
    unfolding os_walk_def using walk_subdirs_pruned [of keep "[]" directory] by simp
qed

lemma bucket_of_translation_files:
  "(b, files) \<in> set (find_translation_files lower directory) \<longleftrightarrow>
     files = map file_path (filter (\<lambda>w. classify lower (fname w) = Some b)
                               (os_walk keep_visible_dir directory))"
  unfolding find_translation_files_def buckets_def
  by (cases b) auto

text \<open>
  Claim C5. The classifier walks every file of the tree that is not below a hidden
  directory, and puts each into the one bucket \<open>classify\<close> gives for its name, or into
  none. The order of the tests does not matter, so that the result is that of testing the
  extension-only formats first; \<open>json_translations\<close> and \<open>yaml_translations\<close> are given
  only to a name with the matching extension that contains, lower-cased, one of the
  keywords \<open>lang\<close>, \<open>translation\<close>, \<open>locale\<close>, \<open>i18n\<close>.
\<close>

theorem translation_files_classification:
  "map fst (find_translation_files lower directory) =
     [po_files, mo_files, json_translations, yaml_translations, properties_files]
   \<and> ((b, files) \<in> set (find_translation_files lower directory) \<longleftrightarrow>
        files = map file_path
          (filter (\<lambda>w. classify lower (fname w) = Some b \<and>
                        (\<forall>d \<in> set (root w). \<not> startswith d (asc ''.'')))
             (os_walk (\<lambda>d. True) directory)))
   \<and> classify lower f = classify_extension_first lower f
   \<and> (classify lower f = Some po_files \<longleftrightarrow> suffix (asc ''.po'') f)
   \<and> (classify lower f = Some mo_files \<longleftrightarrow> suffix (asc ''.mo'') f)
   \<and> (classify lower f = Some properties_files \<longleftrightarrow> suffix (asc ''.properties'') f)
   \<and> (classify lower f = Some json_translations \<longleftrightarrow>
        suffix (asc ''.json'') f \<and>
        (\<exists>keyword \<in> set [asc ''lang'', asc ''translation'', asc ''locale'', asc ''i18n''].
           sublist keyword (lower f)))
   \<and> (classify lower f = Some yaml_translations \<longleftrightarrow>
        (suffix (asc ''.yml'') f \<or> suffix (asc ''.yaml'') f) \<and>
        (\<exists>keyword \<in> set [asc ''lang'', asc ''translation'', asc ''locale'', asc ''i18n''].
           sublist keyword (lower f)))"
proof -
  have 1: "map fst (find_translation_files lower directory) =
     [po_files, mo_files, json_translations, yaml_translations, properties_files]"
    by (simp add: find_translation_files_def buckets_def)
  have "filter (\<lambda>w. classify lower (fname w) = Some b) (os_walk keep_visible_dir directory) =
        filter (\<lambda>w. classify lower (fname w) = Some b \<and>
                        (\<forall>d \<in> set (root w). \<not> startswith d (asc ''.'')))
             (os_walk (\<lambda>d. True) directory)"
    unfolding os_walk_pruned [of keep_visible_dir directory]
    by (auto simp: keep_visible_dir_def list_all_iff intro: filter_cong)
  then have 2: "(b, files) \<in> set (find_translation_files lower directory) \<longleftrightarrow>
        files = map file_path
          (filter (\<lambda>w. classify lower (fname w) = Some b \<and>
                        (\<forall>d \<in> set (root w). \<not> startswith d (asc ''.'')))
             (os_walk (\<lambda>d. True) directory))"
    by (simp add: bucket_of_translation_files)
  from 1 2 show ?thesis
    using classify_order_irrelevant [of lower f] classify_cases [of lower f]
    unfolding has_keyword_iff endswith_iff_suffix by blast
qed

theorem translation_files_classification_witness:
  "(po_files, [[asc ''a.po'']]) \<in> set (find_translation_files ascii_lower tree_with_hidden)
   \<and> (json_translations, [[asc ''i18n'', asc ''LANG_hi.json'']]) \<in>
       set (find_translation_files ascii_lower tree_with_hidden)
   \<and> classify ascii_lower (asc ''data.json'') = None"
proof -
  have w: "os_walk (\<lambda>d. True) tree_with_hidden =
     [\<lparr>root = [], fname = asc ''a.po'', data = Text []\<rparr>,
      \<lparr>root = [asc ''.git''], fname = asc ''b.po'', data = Text []\<rparr>,
      \<lparr>root = [asc ''i18n''], fname = asc ''LANG_hi.json'', data = Text []\<rparr>,
      \<lparr>root = [asc ''i18n''], fname = asc ''data.json'', data = Text []\<rparr>]"
    by (simp add: os_walk_def tree_with_hidden_def)
  have c: "classify ascii_lower (asc ''a.po'') = Some po_files"
    "classify ascii_lower (asc ''b.po'') = Some po_files"
    "classify ascii_lower (asc ''LANG_hi.json'') = Some json_translations"
    "classify ascii_lower (asc ''data.json'') = None"
    by (simp_all add: classify_def endswith_def asc_def has_keyword_def name_keywords_def ascii_lower_def)
  have h: "startswith (asc ''.git'') (asc ''.'')" "\<not> startswith (asc ''i18n'') (asc ''.'')"
    by (simp_all add: startswith_def asc_def)
  have 1: "[[asc ''a.po'']] = map file_path
          (filter (\<lambda>w. classify ascii_lower (fname w) = Some po_files \<and>
                        (\<forall>d \<in> set (root w). \<not> startswith d (asc ''.'')))
             (os_walk (\<lambda>d. True) tree_with_hidden))"
    unfolding w by (simp add: c h file_path_def)
  have 2: "[[asc ''i18n'', asc ''LANG_hi.json'']] = map file_path
          (filter (\<lambda>w. classify ascii_lower (fname w) = Some json_translations \<and>
                        (\<forall>d \<in> set (root w). \<not> startswith d (asc ''.'')))
             (os_walk (\<lambda>d. True) tree_with_hidden))"
    unfolding w by (simp add: c h file_path_def)
  from translation_files_classification
         [of ascii_lower tree_with_hidden po_files "[[asc ''a.po'']]" "asc ''data.json''"] 1
  have a: "(po_files, [[asc ''a.po'']]) \<in> set (find_translation_files ascii_lower tree_with_hidden)"
    by blast
  from translation_files_classification
         [of ascii_lower tree_with_hidden json_translations "[[asc ''i18n'', asc ''LANG_hi.json'']]"
             "asc ''data.json''"] 2
  have b: "(json_translations, [[asc ''i18n'', asc ''LANG_hi.json'']]) \<in>
       set (find_translation_files ascii_lower tree_with_hidden)"
    by blast
  from a b c(4) show ?thesis by simp
qed

subsection \<open>DependencyInspector\<close>

lemma scan_manifests_fields:
  "i18n_packages (scan_manifests lower directory ms acc) =
     i18n_packages acc @ concat (map (manifest_packages lower directory) ms)"
  "requirements_files (scan_manifests lower directory ms acc) =
     requirements_files acc @ filter (\<lambda>m. lookup_entry directory m \<noteq> None) ms"
  by (induction ms arbitrary: acc)
     (auto simp: manifest_packages_def Let_def split: option.splits sum.splits)

lemma analyze_requirements_fields:
  "i18n_packages (analyze_requirements_file lower directory) =
     concat (map (manifest_packages lower directory) manifest_names)"
  "requirements_files (analyze_requirements_file lower directory) =
     filter (\<lambda>m. lookup_entry directory m \<noteq> None) manifest_names"
  by (simp_all add: analyze_requirements_file_def scan_manifests_fields)

lemma count_list_concat: "count_list (concat xss) x = sum_list (map (\<lambda>xs. count_list xs x) xss)"
  by (induction xss) auto

lemma count_list_filter_distinct:
  "distinct xs \<Longrightarrow> count_list (filter P xs) x = (if x \<in> set xs \<and> P x then 1 else 0)"
  by (induction xs) auto

lemma sum_list_indicator: "sum_list (map (\<lambda>x. if P x then 1 else 0) xs) = length (filter P xs)"
  by (induction xs) auto

lemma distinct_catalog: "distinct i18n_packages_catalog"
  by (simp add: i18n_packages_catalog_def asc_def)

lemma count_manifest_packages:
  "count_list (manifest_packages lower directory m) package =
     (if package \<in> set i18n_packages_catalog \<and>
         (\<exists>req_path content. lookup_entry directory m = Some req_path \<and>
            open_strict req_path = Inr content \<and> sublist (lower package) (lower content))
      then 1 else 0)"
  unfolding manifest_packages_def found_in_def
  by (auto simp: count_list_filter_distinct [OF distinct_catalog] str_in_iff_sublist
      split: option.splits sum.splits)

lemma lookup_entry_shallow:
  "lookup_entry (map shallow directory) name = map_option shallow (lookup_entry directory name)"
proof -
  have n: "node_name (shallow n) = node_name n" for n by (cases n) auto
  show ?thesis
    unfolding lookup_entry_def by (induction directory) (auto simp: n)
qed

lemma open_strict_shallow: "open_strict (shallow n) = open_strict n"
  by (cases n) auto

lemma manifest_packages_shallow:
  "manifest_packages lower (map shallow directory) m = manifest_packages lower directory m"
  unfolding manifest_packages_def lookup_entry_shallow
  by (auto simp: open_strict_shallow split: option.splits)

text \<open>
  Claim C7. The dependency inspector looks up the five manifest names among the entries
  of the repository root only, searches each manifest it can read for each catalogued
  package name, lower-casing both, and appends the packages found in catalog order,
  manifest after manifest, with no deduplication across manifests: a package such as
  \<open>streamlit-i18n\<close> has exactly one entry for each manifest in which it is found.
\<close>

theorem dependency_inspector_entries:
  "manifest_names = [asc ''requirements.txt'', asc ''requirements.in'', asc ''pyproject.toml'',
                     asc ''setup.py'', asc ''Pipfile'']
   \<and> asc ''streamlit-i18n'' \<in> set i18n_packages_catalog
   \<and> i18n_packages (analyze_requirements_file lower directory) =
       concat (map (\<lambda>m. case lookup_entry directory m of
                           None \<Rightarrow> []
                         | Some req_path \<Rightarrow>
                             (case open_strict req_path of
                                Inl _ \<Rightarrow> []
                              | Inr content \<Rightarrow>
                                  filter (\<lambda>package. sublist (lower package) (lower content))
                                    i18n_packages_catalog))
                   manifest_names)
   \<and> (\<forall>package \<in> set i18n_packages_catalog.
         count_list (i18n_packages (analyze_requirements_file lower directory)) package =
           length (filter (\<lambda>m. \<exists>req_path content. lookup_entry directory m = Some req_path \<and>
                              open_strict req_path = Inr content \<and>
                              sublist (lower package) (lower content))
                     manifest_names))
   \<and> analyze_requirements_file lower (map shallow directory) =
       analyze_requirements_file lower directory"
proof -
  have 1: "i18n_packages (analyze_requirements_file lower directory) =
       concat (map (\<lambda>m. case lookup_entry directory m of
                           None \<Rightarrow> []
                         | Some req_path \<Rightarrow>
                             (case open_strict req_path of
                                Inl _ \<Rightarrow> []
                              | Inr content \<Rightarrow>
                                  filter (\<lambda>package. sublist (lower package) (lower content))
                                    i18n_packages_catalog))
                   manifest_names)"
    unfolding analyze_requirements_fields manifest_packages_def found_in_def str_in_iff_sublist ..
  have 2: "count_list (i18n_packages (analyze_requirements_file lower directory)) package =
           length (filter (\<lambda>m. \<exists>req_path content. lookup_entry directory m = Some req_path \<and>
                              open_strict req_path = Inr content \<and>
                              sublist (lower package) (lower content))
                     manifest_names)"
    if "package \<in> set i18n_packages_catalog" for package
    unfolding analyze_requirements_fields count_list_concat map_map comp_def count_manifest_packages
    using that by (simp add: sum_list_indicator)
  have "scan_manifests lower (map shallow directory) ms acc = scan_manifests lower directory ms acc"
    for ms acc
    by (induction ms arbitrary: acc)
       (auto simp: lookup_entry_shallow open_strict_shallow Let_def split: option.splits sum.splits)
  then have 3: "analyze_requirements_file lower (map shallow directory) =
       analyze_requirements_file lower directory"
    by (simp add: analyze_requirements_file_def)
  have 4: "asc ''streamlit-i18n'' \<in> set i18n_packages_catalog"
    by (simp add: i18n_packages_catalog_def)
  from 1 2 3 4 show ?thesis
    unfolding manifest_names_def by blast
qed

theorem dependency_inspector_entries_witness:
  "i18n_packages (analyze_requirements_file ascii_lower two_manifests) =
     [asc ''streamlit-i18n'', asc ''streamlit-i18n'']
   \<and> count_list (i18n_packages (analyze_requirements_file ascii_lower two_manifests))
        (asc ''streamlit-i18n'') = 2"
proof -
  have l: "lookup_entry two_manifests (asc ''requirements.txt'') =
             Some (File (asc ''requirements.txt'') (Text (asc ''Streamlit-I18N==0.1'')))"
    "lookup_entry two_manifests (asc ''requirements.in'') = None"
    "lookup_entry two_manifests (asc ''pyproject.toml'') = None"
    "lookup_entry two_manifests (asc ''setup.py'') = None"
    "lookup_entry two_manifests (asc ''Pipfile'') =
             Some (File (asc ''Pipfile'') (Text (asc ''streamlit-i18n streamlit-i18n'')))"
    by (simp_all add: lookup_entry_def two_manifests_def asc_def)
  have f: "filter (\<lambda>package. sublist (ascii_lower package) (ascii_lower (asc ''Streamlit-I18N==0.1'')))
             i18n_packages_catalog = [asc ''streamlit-i18n'']"
    "filter (\<lambda>package. sublist (ascii_lower package) (ascii_lower (asc ''streamlit-i18n streamlit-i18n'')))
             i18n_packages_catalog = [asc ''streamlit-i18n'']"
    by (simp_all add: str_in_iff_sublist [symmetric] i18n_packages_catalog_def asc_def ascii_lower_def)
  from dependency_inspector_entries [of ascii_lower two_manifests]
  have c: "i18n_packages (analyze_requirements_file ascii_lower two_manifests) =
       concat (map (\<lambda>m. case lookup_entry two_manifests m of
                           None \<Rightarrow> []
                         | Some req_path \<Rightarrow>
                             (case open_strict req_path of
                                Inl _ \<Rightarrow> []
                              | Inr content \<Rightarrow>
                                  filter (\<lambda>package. sublist (ascii_lower package) (ascii_lower content))
                                    i18n_packages_catalog))
                   manifest_names)"
    by blast
  have "i18n_packages (analyze_requirements_file ascii_lower two_manifests) =
     [asc ''streamlit-i18n'', asc ''streamlit-i18n'']"
    unfolding c manifest_names_def by (simp add: l f)
  then show ?thesis by simp
qed

subsection \<open>RepositoryFetcher\<close>

lemma try_archives_attempted:
  "try_archives w urls = (map HttpGet (attempted w urls), \<exists>u \<in> set urls. wins w u)"
proof (induction urls)
  case Nil
  then show ?case by (simp add: attempted_def)
next
  case (Cons u urls)
  show ?case
  proof (cases "wins w u")
    case True
    then show ?thesis
      by (auto simp: wins_def attempted_def split: sum.splits)
  next
    case False
    then have "try_archives w (u # urls) =
        (HttpGet u # fst (try_archives w urls), snd (try_archives w urls))"
      by (auto simp: wins_def split: sum.splits prod.splits)
    with False show ?thesis
      unfolding Cons.IH by (simp add: attempted_def)
  qed
qed

lemma possible_urls_shape:
  "\<exists>base repo. possible_urls repo_url =
     [base @ asc ''/-/archive/main/'' @ repo @ asc ''-main.zip'',
      base @ asc ''/-/archive/master/'' @ repo @ asc ''-master.zip'',
      base @ asc ''/repository/archive.zip?ref=main'',
      base @ asc ''/repository/archive.zip?ref=master'']"
  unfolding possible_urls_def Let_def by blast

lemma archive_candidates_cases:
  "archive_candidates lower repo_url = [] \<or>
   archive_candidates lower repo_url = possible_urls repo_url"
  by (simp add: archive_candidates_def)

lemma clone_events:
  "fst (clone_gitlab_repo lower w repo_url) =
     GitClone (git_url_of repo_url) #
       (case subprocess_run w (git_url_of repo_url) of
          Inr returncode \<Rightarrow>
            if returncode = 0 then []
            else map HttpGet (attempted w (archive_candidates lower repo_url))
        | Inl e \<Rightarrow>
            if e \<in> {TimeoutExpired, FileNotFoundError, OSError}
            then map HttpGet (attempted w (archive_candidates lower repo_url))
            else [StError])"
  unfolding clone_gitlab_repo_def clone_body_def Let_def try_archives_attempted
  by (auto split: sum.splits)


text \<open>
  Claim C4, as amended. The fetcher first runs the direct clone, on the URL with the
  \<open>.git\<close> suffix, and requests an archive URL only after the clone returned a non-zero
  code or raised one of the three exceptions of its handler. The archive URLs are none, or
  the four declared candidates; they are requested in their declared order, up to and
  including the first whose response has status 200 and whose payload unpacks: that one
  ends the attempts with success, while a candidate that raises, answers another status
  or fails to unpack is followed by the next.
\<close>

theorem clone_before_archives_in_order:
  "fst (clone_gitlab_repo lower w repo_url) =
     GitClone (git_url_of repo_url) #
       (case subprocess_run w (git_url_of repo_url) of
          Inr returncode \<Rightarrow>
            if returncode = 0 then []
            else map HttpGet (attempted w (archive_candidates lower repo_url))
        | Inl e \<Rightarrow>
            if e \<in> {TimeoutExpired, FileNotFoundError, OSError}
            then map HttpGet (attempted w (archive_candidates lower repo_url))
            else [StError])
   \<and> (archive_candidates lower repo_url = [] \<or>
       archive_candidates lower repo_url = possible_urls repo_url)
   \<and> (\<exists>base repo. possible_urls repo_url =
         [base @ asc ''/-/archive/main/'' @ repo @ asc ''-main.zip'',
          base @ asc ''/-/archive/master/'' @ repo @ asc ''-master.zip'',
          base @ asc ''/repository/archive.zip?ref=main'',
          base @ asc ''/repository/archive.zip?ref=master''])
   \<and> prefix (attempted w (archive_candidates lower repo_url)) (archive_candidates lower repo_url)
   \<and> (\<forall>u \<in> set (butlast (attempted w (archive_candidates lower repo_url))). \<not> wins w u)
   \<and> (attempted w (archive_candidates lower repo_url) \<noteq> archive_candidates lower repo_url
        \<longrightarrow> wins w (last (attempted w (archive_candidates lower repo_url))))"
proof -
  let ?urls = "archive_candidates lower repo_url"
  let ?P = "\<lambda>u. \<not> wins w u"
  have p: "prefix (attempted w ?urls) ?urls"
  proof -
    have "?urls = takeWhile ?P ?urls @ dropWhile ?P ?urls" by simp
    also have "\<dots> = takeWhile ?P ?urls @ take 1 (dropWhile ?P ?urls) @ drop 1 (dropWhile ?P ?urls)"
      by simp
    finally have "?urls = attempted w ?urls @ drop 1 (dropWhile ?P ?urls)"
      by (simp add: attempted_def)
    then show ?thesis by (metis prefixI)
  qed
  have b: "\<forall>u \<in> set (butlast (attempted w ?urls)). \<not> wins w u"
  proof (cases "dropWhile ?P ?urls")
    case Nil
    then have "attempted w ?urls = takeWhile ?P ?urls" by (simp add: attempted_def)
    then show ?thesis by (auto dest: in_set_butlastD set_takeWhileD)
  next
    case (Cons x xs)
    then have "attempted w ?urls = takeWhile ?P ?urls @ [x]" by (simp add: attempted_def)
    then show ?thesis by (auto dest: set_takeWhileD)
  qed
  have l: "attempted w ?urls \<noteq> ?urls \<longrightarrow> wins w (last (attempted w ?urls))"
  proof (cases "dropWhile ?P ?urls")
    case Nil
    then have "takeWhile ?P ?urls = ?urls"
      by (metis append_Nil2 takeWhile_dropWhile_id)
    then have "attempted w ?urls = ?urls"
      unfolding attempted_def Nil by (simp only: take.simps append_Nil2)
    then show ?thesis by blast
  next
    case (Cons x xs)
    then have "\<not> ?P x" by (metis hd_dropWhile list.sel(1) list.distinct(1))
    moreover from Cons have "attempted w ?urls = takeWhile ?P ?urls @ [x]"
      by (simp add: attempted_def)
    ultimately show ?thesis by simp
  qed
  from clone_events [of lower w repo_url] archive_candidates_cases [of lower repo_url]
    possible_urls_shape [of repo_url] p b l
  show ?thesis by blast
qed

lemma gitlab_url_candidates:
  "archive_candidates ascii_lower gitlab_url =
     [asc ''https://gitlab.com/o/r/-/archive/main/r-main.zip'',
      asc ''https://gitlab.com/o/r/-/archive/master/r-master.zip'',
      asc ''https://gitlab.com/o/r/repository/archive.zip?ref=main'',
      asc ''https://gitlab.com/o/r/repository/archive.zip?ref=master'']"
  by (simp add: archive_candidates_def possible_urls_def gitlab_url_def asc_def rstrip_slash_def
      endswith_def ascii_lower_def Let_def)

lemma gitlab_url_git: "git_url_of gitlab_url = asc ''https://gitlab.com/o/r.git''"
  by (simp add: git_url_of_def gitlab_url_def endswith_def asc_def)

text \<open>
  The first archive answers 200 with a payload that does not unpack, and the second
  archive is requested all the same: claim C4 as stated fails.
\<close>

theorem first_200_counterexample:
  "requests_get page_then_archive (asc ''https://gitlab.com/o/r/-/archive/main/r-main.zip'') =
     Inr \<lparr>status_code = 200, unpacks = False\<rparr>
   \<and> clone_gitlab_repo ascii_lower page_then_archive gitlab_url =
       ([GitClone (asc ''https://gitlab.com/o/r.git''),
         HttpGet (asc ''https://gitlab.com/o/r/-/archive/main/r-main.zip''),
         HttpGet (asc ''https://gitlab.com/o/r/-/archive/master/r-master.zip'')],
        Inr True)"
  unfolding clone_gitlab_repo_def clone_body_def gitlab_url_candidates gitlab_url_git
  by (simp add: page_then_archive_def endswith_def asc_def)

theorem clone_before_archives_in_order_witness:
  "fst (clone_gitlab_repo ascii_lower timeout_then_archive gitlab_url) =
     [GitClone (asc ''https://gitlab.com/o/r.git''),
      HttpGet (asc ''https://gitlab.com/o/r/-/archive/main/r-main.zip'')]
   \<and> fst (clone_gitlab_repo ascii_lower clone_raises gitlab_url) =
     [GitClone (asc ''https://gitlab.com/o/r.git''), StError]"
proof -
  have a: "attempted timeout_then_archive (archive_candidates ascii_lower gitlab_url) =
      [asc ''https://gitlab.com/o/r/-/archive/main/r-main.zip'']"
    unfolding gitlab_url_candidates
    by (simp add: attempted_def wins_def timeout_then_archive_def)
  have s: "subprocess_run timeout_then_archive u = Inl TimeoutExpired"
    "subprocess_run clone_raises u = Inl ValueError" for u
    by (simp_all add: timeout_then_archive_def clone_raises_def)
  from clone_before_archives_in_order [of ascii_lower timeout_then_archive gitlab_url]
  have 1: "fst (clone_gitlab_repo ascii_lower timeout_then_archive gitlab_url) =
     [GitClone (asc ''https://gitlab.com/o/r.git''),
      HttpGet (asc ''https://gitlab.com/o/r/-/archive/main/r-main.zip'')]"
    unfolding a gitlab_url_git by (simp add: s)
  from clone_before_archives_in_order [of ascii_lower clone_raises gitlab_url]
  have 2: "fst (clone_gitlab_repo ascii_lower clone_raises gitlab_url) =
     [GitClone (asc ''https://gitlab.com/o/r.git''), StError]"
    unfolding gitlab_url_git by (simp add: s)
  from 1 2 show ?thesis by simp
qed

subsection \<open>Absorbed failures\<close>













end
